theory Spec2Isabelle
  imports Main "HOL-Library.Sublist"
begin

section \<open>The gRPC server of go-commons: interceptors, error classification, listener\<close>

text \<open>
  A shallow embedding of the Go package \<open>grpc\<close> of go-commons (the file that defines
  \<open>newGRPCServerWithListener\<close>, \<open>newGRPCListener\<close>, \<open>prependDebugInterceptor\<close>,
  \<open>newRecoveryFunc\<close>, \<open>handleErr\<close> and \<open>prependErrorHandler\<close>).

  Go values are modelled as data, calls on the capabilities supplied by the embedding
  application (\<open>ErrorHandler\<close>, \<open>PanicHandler\<close>, the debug logger) are recorded as a list
  of events in the order in which the code makes them, and a panic is an outcome of its
  own, next to the normal return of a response and an error.
\<close>

subsection \<open>Status codes and statuses (google.golang.org/grpc/codes, status)\<close>

datatype codes_Code =
    OK | Canceled | Unknown | InvalidArgument | DeadlineExceeded | NotFound
  | AlreadyExists | PermissionDenied | ResourceExhausted | FailedPrecondition
  | Aborted | OutOfRange | Unimplemented | Internal | Unavailable | DataLoss
  | Unauthenticated

fun Code_String :: "codes_Code \<Rightarrow> string" where
  "Code_String OK = ''OK''"
| "Code_String Canceled = ''Canceled''"
| "Code_String Unknown = ''Unknown''"
| "Code_String InvalidArgument = ''InvalidArgument''"
| "Code_String DeadlineExceeded = ''DeadlineExceeded''"
| "Code_String NotFound = ''NotFound''"
| "Code_String AlreadyExists = ''AlreadyExists''"
| "Code_String PermissionDenied = ''PermissionDenied''"
| "Code_String ResourceExhausted = ''ResourceExhausted''"
| "Code_String FailedPrecondition = ''FailedPrecondition''"
| "Code_String Aborted = ''Aborted''"
| "Code_String OutOfRange = ''OutOfRange''"
| "Code_String Unimplemented = ''Unimplemented''"
| "Code_String Internal = ''Internal''"
| "Code_String Unavailable = ''Unavailable''"
| "Code_String DataLoss = ''DataLoss''"
| "Code_String Unauthenticated = ''Unauthenticated''"

text \<open>A \<open>*status.Status\<close> that is not nil: an immutable pair of a code and a message.\<close>

record status =
  Code :: codes_Code
  Message :: string

definition status_New :: "codes_Code \<Rightarrow> string \<Rightarrow> status" where
  "status_New c msg = \<lparr>Code = c, Message = msg\<rparr>"

subsection \<open>Errors\<close>

text \<open>
  The values of Go's interface \<open>error\<close> that the package meets: the sentinel
  \<open>context.Canceled\<close>, the error of a status (\<open>(*Status).Err()\<close>), an error that only
  has a text (\<open>errors.New\<close>, or any error type of the application without \<open>Unwrap\<close>),
  the errors of \<open>net.SplitHostPort\<close> and \<open>strconv.Atoi\<close>, and the result of
  \<open>fmt.Errorf\<close> with one \<open>%w\<close>: the formatted text together with the wrapped error.
\<close>

datatype error =
    context_Canceled
  | StatusError status
  | ErrorString string
  | AddrError string string
  | NumError string string string
  | WrapError string error

subsection \<open>Quoting (strconv.Quote, the verb \<open>%q\<close> of fmt on a string)\<close>

definition hexdigit :: "nat \<Rightarrow> char" where
  "hexdigit n = ''0123456789abcdef'' ! (n mod 16)"

text \<open>
  One byte of the string inside the double quotes. The double quote and the backslash
  are escaped, the control characters are written as \<open>\a \b \f \n \r \t \v\<close> or
  \<open>\xhh\<close>. A byte above 0x7F is copied, which is what Quote does with the UTF-8
  encoding of a printable rune; Quote writes a byte that belongs to no valid encoding as
  \<open>\xhh\<close> and a rune that is not printable as \<open>\u\<close> with its number, by a table of
  Unicode that is not modelled. Quoted text occurs only inside the text of errors; what
  is proved of it below, that it begins with a double quote and is longer than the string
  quoted, holds for Quote itself.
\<close>

definition quoteByte :: "char \<Rightarrow> string" where
  "quoteByte c =
    (if c = CHR 0x22 then [CHR 0x5C, CHR 0x22]
     else if c = CHR 0x5C then [CHR 0x5C, CHR 0x5C]
     else if c = CHR 0x07 then [CHR 0x5C, CHR ''a'']
     else if c = CHR 0x08 then [CHR 0x5C, CHR ''b'']
     else if c = CHR 0x0C then [CHR 0x5C, CHR ''f'']
     else if c = CHR 0x0A then [CHR 0x5C, CHR ''n'']
     else if c = CHR 0x0D then [CHR 0x5C, CHR ''r'']
     else if c = CHR 0x09 then [CHR 0x5C, CHR ''t'']
     else if c = CHR 0x0B then [CHR 0x5C, CHR ''v'']
     else if (of_char c :: nat) < 0x20 \<or> c = CHR 0x7F
       then [CHR 0x5C, CHR ''x'', hexdigit ((of_char c :: nat) div 16), hexdigit (of_char c)]
     else [c])"

definition strconv_Quote :: "string \<Rightarrow> string" where
  "strconv_Quote s = CHR 0x22 # concat (map quoteByte s) @ [CHR 0x22]"

subsection \<open>The text of an error, wrapping, \<open>errors.Is\<close>\<close>

fun Error :: "error \<Rightarrow> string" where
  "Error context_Canceled = ''context canceled''"
| "Error (StatusError s) =
     ''rpc error: code = '' @ Code_String (Code s) @ '' desc = '' @ Message s"
| "Error (ErrorString msg) = msg"
| "Error (AddrError err addr) =
     (if addr \<noteq> [] then ''address '' @ addr @ '': '' @ err else err)"
| "Error (NumError func num err) =
     ''strconv.'' @ func @ '': parsing '' @ strconv_Quote num @ '': '' @ err"
| "Error (WrapError msg err) = msg"

text \<open>
  \<open>fmt.Errorf(format + "%w", err)\<close>: every format string of the package ends in
  \<open>%w\<close>, so the text of the result is the formatted text followed by the text of \<open>err\<close>, and
  \<open>Unwrap\<close> gives \<open>err\<close> back.
\<close>

definition fmt_Errorf_w :: "string \<Rightarrow> error \<Rightarrow> error" where
  "fmt_Errorf_w format err = WrapError (format @ Error err) err"

text \<open>
  \<open>errors.Is(err, target)\<close>: \<open>err\<close> or an error it wraps is the target. (The
  \<open>Is\<close> method of a status error compares it with another status error only.)
\<close>

fun errors_Is :: "error \<Rightarrow> error \<Rightarrow> bool" where
  "errors_Is (WrapError msg err) target =
     (WrapError msg err = target \<or> errors_Is err target)"
| "errors_Is err target = (err = target)"

text \<open>
  \<open>(*Status).Err()\<close> on a pointer that may be nil: nil when the pointer is nil or the
  code is OK, the status as an immutable error otherwise. \<open>status.Error(c, msg)\<close> is
  \<open>status.New(c, msg).Err()\<close>.
\<close>

definition Status_Err :: "status option \<Rightarrow> error option" where
  "Status_Err s =
    (case s of
       None \<Rightarrow> None
     | Some st \<Rightarrow> if Code st = OK then None else Some (StatusError st))"

definition status_Error :: "codes_Code \<Rightarrow> string \<Rightarrow> error option" where
  "status_Error c msg = Status_Err (Some (status_New c msg))"

text \<open>
  \<open>status.Convert(err)\<close>, the status that the runtime sends for the error a handler
  returned: OK with an empty message for nil, the status of a status error (for a
  wrapped one, with the text of the whole error as message), Unknown with the text of
  the error for any other error.
\<close>

fun GRPCStatus :: "error \<Rightarrow> status option" where
  "GRPCStatus (StatusError s) = Some s"
| "GRPCStatus (WrapError msg err) = GRPCStatus err"
| "GRPCStatus err = None"

definition status_Convert :: "error option \<Rightarrow> status" where
  "status_Convert e =
    (case e of
       None \<Rightarrow> status_New OK []
     | Some (StatusError s) \<Rightarrow> s
     | Some err \<Rightarrow>
         (case GRPCStatus err of
            Some s \<Rightarrow> status_New (Code s) (Error err)
          | None \<Rightarrow> status_New Unknown (Error err)))"

definition status_Code :: "error option \<Rightarrow> codes_Code" where
  "status_Code e = (case e of None \<Rightarrow> OK | Some err \<Rightarrow> Code (status_Convert e))"

subsection \<open>Contexts, payloads, events\<close>

text \<open>
  A context is the background context, a context with a timeout (in nanoseconds, as
  \<open>time.Duration\<close>) derived from a parent, or the context of an incoming call, which
  may carry a request ID and is cancelled when the client cancels.
\<close>

datatype Context =
    context_Background
  | context_WithTimeout Context nat
  | IncomingContext "string option"

definition time_Second :: nat where
  "time_Second = 1000000000"

text \<open>The values of \<open>interface{}\<close>: requests, responses and the value of a panic.\<close>

datatype any = AnyNil | AnyString string | AnyError error

text \<open>The verb \<open>%q\<close> of fmt on such a value.\<close>

fun fmt_q :: "any \<Rightarrow> string" where
  "fmt_q AnyNil = ''%!q(<nil>)''"
| "fmt_q (AnyString s) = strconv_Quote s"
| "fmt_q (AnyError e) = strconv_Quote (Error e)"

text \<open>The debug logger, and the fields of a log entry (zap.String, zap.Any, zap.Error,
  zap.Duration).\<close>

datatype debugLogger = ZapLogger string

datatype field =
    zap_String string string
  | zap_Any string any
  | zap_Error error
  | zap_Duration string int

text \<open>
  What a call does to the outside, in order: the calls of the methods of the handlers
  that have an effect, the entries of the debug logger, and the call of the next handler
  of the chain with the context and the request it is given.
\<close>

datatype event =
    ErrorHandler_LogError error
  | ErrorHandler_ReportError Context error
  | PanicHandler_LogPanic any
  | PanicHandler_ReportPanic Context any
  | PanicHandler_LogError error
  | Logger_Debug debugLogger string "field list"
  | Handler_Called Context any

text \<open>
  The methods of the capabilities whose result the code reads. A method is a function
  of its arguments; \<open>LogError\<close> and \<open>LogPanic\<close> return nothing and are events only.
  \<open>ErrorToGRPCStatus\<close> returns a pair of a status pointer and an error, each of which
  may be nil.
\<close>

record ErrorHandler =
  IsApplicationError :: "error \<Rightarrow> bool"
  ReportError :: "Context \<Rightarrow> error \<Rightarrow> error option"
  ErrorToGRPCStatus :: "error \<Rightarrow> status option \<times> error option"

record PanicHandler =
  ReportPanic :: "Context \<Rightarrow> any \<Rightarrow> error option"

text \<open>
  A call of a handler returns a response and an error, or panics with a value; with it
  come the events of the call.
\<close>

datatype outcome = Returns any "error option" | Panics any

type_synonym unaryHandler = "Context \<Rightarrow> any \<Rightarrow> outcome \<times> event list"

record unaryServerInfo =
  FullMethod :: string

definition call :: "unaryHandler \<Rightarrow> Context \<Rightarrow> any \<Rightarrow> outcome \<times> event list" where
  "call handler ctx req =
    (case handler ctx req of (out, evs) \<Rightarrow> (out, Handler_Called ctx req # evs))"

subsection \<open>path.Base\<close>

definition path_Base :: "string \<Rightarrow> string" where
  "path_Base p =
    (if p = [] then ''.''
     else
       let stripped = rev (dropWhile (\<lambda>c. c = CHR ''/'') (rev p));
           lastElem = rev (takeWhile (\<lambda>c. c \<noteq> CHR ''/'') (rev stripped))
       in if lastElem = [] then ''/'' else lastElem)"

subsection \<open>The error classifier: handleErr\<close>

text \<open>
  \<open>handleErr(targetErr, errorHandler)\<close>. The context of the reports is made from the
  background context with the timeout of one second; the deferred \<open>cancelCtx\<close> has no
  effect that the model keeps. The \<open>switch\<close> is the chain of its cases in their order.
\<close>

definition handleErr :: "error \<Rightarrow> ErrorHandler \<Rightarrow> error option \<times> event list" where
  "handleErr targetErr errorHandler =
    (let timeout = time_Second;
         ctx = context_WithTimeout context_Background timeout;
         logged = [ErrorHandler_LogError targetErr]
     in
       if errors_Is targetErr context_Canceled then (None, logged)
       else if IsApplicationError errorHandler targetErr then
         (case ErrorToGRPCStatus errorHandler targetErr of
            (sts, None) \<Rightarrow> (Status_Err sts, logged)
          | (sts, Some toGrpcStatusErr0) \<Rightarrow>
              let grpcStatus = Some (status_New Internal ''internal error.'');
                  toGrpcStatusErr = fmt_Errorf_w ''error to grpc status: '' toGrpcStatusErr0;
                  logged1 = logged @
                    [ErrorHandler_LogError toGrpcStatusErr,
                     ErrorHandler_ReportError ctx toGrpcStatusErr]
              in
                (case ReportError errorHandler ctx toGrpcStatusErr of
                   None \<Rightarrow> (Status_Err grpcStatus, logged1)
                 | Some reportErrErr \<Rightarrow>
                     (Status_Err grpcStatus,
                      logged1 @
                        [ErrorHandler_LogError
                          (fmt_Errorf_w
                            (''error while reporting this error ''
                               @ strconv_Quote (Error toGrpcStatusErr) @ '': '')
                            reportErrErr)])))
       else if errors_Is targetErr context_Canceled then
         (Status_Err (Some (status_New Internal ''context cancelled.'')), logged)
       else
         (let logged1 = logged @ [ErrorHandler_ReportError ctx targetErr] in
            case ReportError errorHandler ctx targetErr of
              None \<Rightarrow> (Status_Err (Some (status_New Internal ''internal error.'')), logged1)
            | Some reportErr \<Rightarrow>
                (Status_Err (Some (status_New Internal ''internal error.'')),
                 logged1 @
                   [ErrorHandler_LogError
                     (fmt_Errorf_w
                       (''error while reporting this error ''
                          @ strconv_Quote (Error targetErr) @ '': '')
                       reportErr)])))"

text \<open>
  The interceptor that \<open>prependErrorHandler\<close> puts in front of the chain: the error of
  the next handler is wrapped as \<open>fmt.Errorf("%q: %w", path.Base(info.FullMethod), err)\<close>
  and given to \<open>handleErr\<close>; the response is dropped. A panic of the next handler
  passes through.
\<close>

definition methodErr :: "unaryServerInfo \<Rightarrow> error \<Rightarrow> error" where
  "methodErr info err =
     fmt_Errorf_w (strconv_Quote (path_Base (FullMethod info)) @ '': '') err"

definition errorHandlerInterceptor ::
  "ErrorHandler \<Rightarrow> Context \<Rightarrow> any \<Rightarrow> unaryServerInfo \<Rightarrow> unaryHandler
     \<Rightarrow> outcome \<times> event list" where
  "errorHandlerInterceptor errorHandler ctx req info handler =
    (case call handler ctx req of
       (Panics p, evs) \<Rightarrow> (Panics p, evs)
     | (Returns resp None, evs) \<Rightarrow> (Returns resp None, evs)
     | (Returns resp (Some err), evs) \<Rightarrow>
         (case handleErr (methodErr info err) errorHandler of
            (e, evs') \<Rightarrow> (Returns AnyNil e, evs @ evs')))"

subsection \<open>The debug interceptor\<close>

text \<open>
  Modelled from the spec: \<open>grpcutils.GetRequestIDFromCtx\<close> is not among the sources. The
  request ID is an opaque string recovered from the context of the call; None stands for
  the error it returns when the context has none.
\<close>

fun GetRequestIDFromCtx :: "Context \<Rightarrow> string option" where
  "GetRequestIDFromCtx context_Background = None"
| "GetRequestIDFromCtx (context_WithTimeout parent d) = GetRequestIDFromCtx parent"
| "GetRequestIDFromCtx (IncomingContext requestID) = requestID"

text \<open>
  \<open>time.Since(start)\<close> for a \<open>start\<close> read with \<open>time.Now()\<close>: the difference of two
  readings of the monotonic clock, which does not run backwards, so the model is given
  the number of nanoseconds by which the clock has advanced; a \<open>time.Duration\<close> is a
  64-bit integer and the difference saturates at its maximum.
\<close>

definition time_Since :: "nat \<Rightarrow> int" where
  "time_Since elapsed = min (int elapsed) (2 ^ 63 - 1)"

text \<open>
  The interceptor that \<open>prependDebugInterceptor\<close> puts in front of the chain.
  \<open>elapsed\<close> is the advance of the clock between \<open>time.Now()\<close> at the start and the
  \<open>time.Since(start)\<close> of the completion entry. The code has no \<open>recover\<close>: when the
  next handler panics, the panic passes through after the first entry.
\<close>

definition debugInterceptor ::
  "debugLogger \<Rightarrow> nat \<Rightarrow> Context \<Rightarrow> any \<Rightarrow> unaryServerInfo \<Rightarrow> unaryHandler
     \<Rightarrow> outcome \<times> event list" where
  "debugInterceptor logger elapsed ctx req info handler =
    (let method = path_Base (FullMethod info) in
       if method = ''Check'' \<or> method = ''Watch'' then call handler ctx req
       else
         let requestID =
               (case GetRequestIDFromCtx ctx of
                  None \<Rightarrow> ''00000000-0000-0000-0000-000000000000''
                | Some rid \<Rightarrow> rid);
             started =
               Logger_Debug logger ''request started''
                 [zap_String ''trace_id'' requestID, zap_String ''method'' method]
         in
           (case call handler ctx req of
              (Panics p, evs) \<Rightarrow> (Panics p, started # evs)
            | (Returns request err, evs) \<Rightarrow>
                let code = status_Code err in
                  (case err of
                     Some e \<Rightarrow>
                       (Returns request err,
                        started # evs @
                          [Logger_Debug logger ''request completed with error''
                            [zap_String ''trace_id'' requestID,
                             zap_String ''method'' method,
                             zap_Any ''request'' req,
                             zap_Error e,
                             zap_String ''code'' (Code_String code),
                             zap_Duration ''duration'' (time_Since elapsed)]])
                   | None \<Rightarrow>
                       (Returns request err,
                        started # evs @
                          [Logger_Debug logger ''request completed successfully''
                            [zap_String ''trace_id'' requestID,
                             zap_String ''method'' method,
                             zap_String ''code'' (Code_String code),
                             zap_Duration ''duration'' (time_Since elapsed)]]))))"

subsection \<open>Panic recovery\<close>

text \<open>
  The function that \<open>newRecoveryFunc(panicHandler)\<close> returns, applied to the value
  \<open>p\<close> of a panic. It is not given the context of the call.
\<close>

definition newRecoveryFunc :: "PanicHandler \<Rightarrow> any \<Rightarrow> error option \<times> event list" where
  "newRecoveryFunc panicHandler p =
    (let ctx = context_WithTimeout context_Background time_Second;
         logged = [PanicHandler_LogPanic p, PanicHandler_ReportPanic ctx p]
     in
       case ReportPanic panicHandler ctx p of
         None \<Rightarrow> (status_Error Internal ''internal error.'', logged)
       | Some reportPanicErr \<Rightarrow>
           (status_Error Internal ''internal error.'',
            logged @
              [PanicHandler_LogError
                (fmt_Errorf_w (''error while reporting panic '' @ fmt_q p @ '': '')
                   reportPanicErr)]))"

text \<open>
  \<open>grpc_recovery.UnaryServerInterceptor(grpc_recovery.WithRecoveryHandler(f))\<close> of
  go-grpc-middleware: the next handler is called; when it panics, the panic is recovered
  and the call returns a nil response and the error of \<open>f\<close> on the value of the panic.
\<close>

definition grpc_recovery_UnaryServerInterceptor ::
  "(any \<Rightarrow> error option \<times> event list) \<Rightarrow> Context \<Rightarrow> any \<Rightarrow> unaryServerInfo \<Rightarrow> unaryHandler
     \<Rightarrow> outcome \<times> event list" where
  "grpc_recovery_UnaryServerInterceptor recoveryHandlerFunc ctx req info handler =
    (case call handler ctx req of
       (Panics p, evs) \<Rightarrow>
         (case recoveryHandlerFunc p of (err, evs') \<Rightarrow> (Returns AnyNil err, evs @ evs'))
     | (Returns resp err, evs) \<Rightarrow> (Returns resp err, evs))"

subsection \<open>The chain of interceptors\<close>

text \<open>
  An element of the list of interceptors: one of the three closures of the package, with
  the capability it closes over, or an interceptor of the caller.
\<close>

datatype unaryServerInterceptor =
    DebugInterceptor debugLogger
  | RecoveryInterceptor PanicHandler
  | ErrorHandlerInterceptor ErrorHandler
  | CallerInterceptor
      "Context \<Rightarrow> any \<Rightarrow> unaryServerInfo \<Rightarrow> unaryHandler \<Rightarrow> outcome \<times> event list"

fun intercept ::
  "nat \<Rightarrow> unaryServerInterceptor \<Rightarrow> Context \<Rightarrow> any \<Rightarrow> unaryServerInfo \<Rightarrow> unaryHandler
     \<Rightarrow> outcome \<times> event list" where
  "intercept elapsed (DebugInterceptor logger) = debugInterceptor logger elapsed"
| "intercept elapsed (RecoveryInterceptor panicHandler) =
     grpc_recovery_UnaryServerInterceptor (newRecoveryFunc panicHandler)"
| "intercept elapsed (ErrorHandlerInterceptor errorHandler) =
     errorHandlerInterceptor errorHandler"
| "intercept elapsed (CallerInterceptor f) = f"

text \<open>
  Modelled from the spec: \<open>prependServerOption\<close> is not among the sources. Each enabled
  capability's interceptor is added by prepending it to the list.
\<close>

definition prependServerOption ::
  "unaryServerInterceptor \<Rightarrow> unaryServerInterceptor list \<Rightarrow> unaryServerInterceptor list" where
  "prependServerOption interceptor interceptors = interceptor # interceptors"

definition prependDebugInterceptor ::
  "unaryServerInterceptor list \<Rightarrow> debugLogger \<Rightarrow> unaryServerInterceptor list" where
  "prependDebugInterceptor interceptors logger =
     prependServerOption (DebugInterceptor logger) interceptors"

definition prependPanicHandler ::
  "unaryServerInterceptor list \<Rightarrow> PanicHandler \<Rightarrow> unaryServerInterceptor list" where
  "prependPanicHandler interceptors panicHandler =
     prependServerOption (RecoveryInterceptor panicHandler) interceptors"

definition prependErrorHandler ::
  "unaryServerInterceptor list \<Rightarrow> ErrorHandler \<Rightarrow> unaryServerInterceptor list" where
  "prependErrorHandler interceptors errorHandler =
     prependServerOption (ErrorHandlerInterceptor errorHandler) interceptors"

text \<open>
  Modelled from the spec: \<open>isErrorHandlerNil\<close>, \<open>isPanicHandlerNil\<close> and
  \<open>isDebugLoggerNil\<close> are not among the sources. A capability is absent from the
  configuration when it is nil; a capability that may be nil is an option.
\<close>

definition isErrorHandlerNil :: "ErrorHandler option \<Rightarrow> bool" where
  "isErrorHandlerNil errorHandler = (case errorHandler of None \<Rightarrow> True | Some h \<Rightarrow> False)"

definition isPanicHandlerNil :: "PanicHandler option \<Rightarrow> bool" where
  "isPanicHandlerNil panicHandler = (case panicHandler of None \<Rightarrow> True | Some h \<Rightarrow> False)"

definition isDebugLoggerNil :: "debugLogger option \<Rightarrow> bool" where
  "isDebugLoggerNil logger = (case logger of None \<Rightarrow> True | Some l \<Rightarrow> False)"

subsection \<open>The listener: net.SplitHostPort, strconv.Atoi, fmt.Sprintf, newGRPCListener\<close>

fun indexByte :: "string \<Rightarrow> char \<Rightarrow> nat option" where
  "indexByte [] c = None"
| "indexByte (x # xs) c = (if x = c then Some 0 else map_option Suc (indexByte xs c))"

definition lastIndexByte :: "string \<Rightarrow> char \<Rightarrow> nat option" where
  "lastIndexByte s c =
    (case indexByte (rev s) c of None \<Rightarrow> None | Some k \<Rightarrow> Some (length s - 1 - k))"

definition missingPort :: string where
  "missingPort = ''missing port in address''"

definition tooManyColons :: string where
  "tooManyColons = ''too many colons in address''"

text \<open>
  The end of \<open>net.SplitHostPort\<close>: no opening bracket from position \<open>j\<close> on, no
  closing bracket from position \<open>k\<close> on; the port is what follows the last colon, at
  position \<open>i\<close>.
\<close>

definition splitChecked ::
  "string \<Rightarrow> string \<Rightarrow> nat \<Rightarrow> nat \<Rightarrow> nat \<Rightarrow> error + string \<times> string" where
  "splitChecked hostport host j k i =
    (if CHR ''['' \<in> set (drop j hostport)
       then Inl (AddrError (''unexpected '' @ [CHR 0x27, CHR ''['', CHR 0x27] @ '' in address'')
                   hostport)
     else if CHR '']'' \<in> set (drop k hostport)
       then Inl (AddrError (''unexpected '' @ [CHR 0x27, CHR '']'', CHR 0x27] @ '' in address'')
                   hostport)
     else Inr (host, drop (i + 1) hostport))"

definition net_SplitHostPort :: "string \<Rightarrow> error + string \<times> string" where
  "net_SplitHostPort hostport =
    (case lastIndexByte hostport (CHR '':'') of
       None \<Rightarrow> Inl (AddrError missingPort hostport)
     | Some i \<Rightarrow>
         if (case hostport of [] \<Rightarrow> False | c # cs \<Rightarrow> c = CHR ''['') then
           (case indexByte hostport (CHR '']'') of
              None \<Rightarrow>
                Inl (AddrError
                      (''missing '' @ [CHR 0x27, CHR '']'', CHR 0x27] @ '' in address'') hostport)
            | Some endIdx \<Rightarrow>
                if endIdx + 1 = length hostport then Inl (AddrError missingPort hostport)
                else if endIdx + 1 = i then
                  splitChecked hostport (take (endIdx - 1) (drop 1 hostport)) 1 (endIdx + 1) i
                else if hostport ! (endIdx + 1) = CHR '':''
                  then Inl (AddrError tooManyColons hostport)
                else Inl (AddrError missingPort hostport))
         else
           (let host = take i hostport in
              if CHR '':'' \<in> set host then Inl (AddrError tooManyColons hostport)
              else splitChecked hostport host 0 0 i))"

text \<open>
  \<open>strconv.Atoi\<close> where \<open>int\<close> has 64 bits: an optional sign and at least one decimal
  digit, and a value that fits, or else a \<open>*NumError\<close>.
\<close>

definition isDigit :: "char \<Rightarrow> bool" where
  "isDigit c = (48 \<le> (of_char c :: nat) \<and> (of_char c :: nat) \<le> 57)"

definition digitsValue :: "string \<Rightarrow> nat" where
  "digitsValue s = foldl (\<lambda>n c. n * 10 + ((of_char c :: nat) - 48)) 0 s"

definition strconv_Atoi :: "string \<Rightarrow> error + int" where
  "strconv_Atoi s =
    (let neg = (case s of [] \<Rightarrow> False | c # cs \<Rightarrow> c = CHR ''-'');
         body = (case s of [] \<Rightarrow> [] | c # cs \<Rightarrow> if c = CHR ''-'' \<or> c = CHR ''+'' then cs else s)
     in
       if body = [] \<or> \<not> list_all isDigit body
         then Inl (NumError ''Atoi'' s ''invalid syntax'')
       else
         let n = int (digitsValue body) in
           if neg then
             (if n > 2 ^ 63 then Inl (NumError ''Atoi'' s ''value out of range'') else Inr (- n))
           else
             (if n > 2 ^ 63 - 1 then Inl (NumError ''Atoi'' s ''value out of range'') else Inr n))"

text \<open>Arithmetic on \<open>int\<close> wraps around at 64 bits.\<close>

definition int64 :: "int \<Rightarrow> int" where
  "int64 x = (x + 2 ^ 63) mod 2 ^ 64 - 2 ^ 63"

text \<open>The verb \<open>%d\<close> of fmt: the decimal digits, after a minus sign for a negative number.\<close>

definition digit :: "nat \<Rightarrow> char" where
  "digit n = ''0123456789'' ! (n mod 10)"

fun decimal :: "nat \<Rightarrow> string" where
  "decimal n = (if n < 10 then [digit n] else decimal (n div 10) @ [digit n])"

declare decimal.simps [simp del]

definition fmt_d :: "int \<Rightarrow> string" where
  "fmt_d i = (if i < 0 then CHR ''-'' # decimal (nat (- i)) else decimal (nat i))"

text \<open>
  A listener, by the network and the address it is bound to. \<open>net.Listen\<close> is the
  operating system: a function from the network and the address to a listener or an
  error.
\<close>

datatype listener = Listener string string

type_synonym net_Listen = "string \<Rightarrow> string \<Rightarrow> error + listener"

definition newGRPCListener :: "net_Listen \<Rightarrow> listener option \<Rightarrow> string \<Rightarrow> error + listener" where
  "newGRPCListener listen defaultListener addr =
    (case defaultListener of
       Some l \<Rightarrow> Inr l
     | None \<Rightarrow>
         (case net_SplitHostPort addr of
            Inl err \<Rightarrow> Inl (fmt_Errorf_w ''invalid address: '' err)
          | Inr (hostString, portString) \<Rightarrow>
              (case strconv_Atoi portString of
                 Inl err \<Rightarrow> Inl (fmt_Errorf_w ''parse port: '' err)
               | Inr port \<Rightarrow>
                   (case listen ''tcp'' (hostString @ '':'' @ fmt_d (int64 (port - 1))) of
                      Inl err \<Rightarrow> Inl (fmt_Errorf_w ''new net listener: '' err)
                    | Inr l \<Rightarrow> Inr l))))"

text \<open>
  \<open>net.Listen\<close> itself, over the binding of the operating system. For a TCP network
  it first splits the address with \<open>net.SplitHostPort\<close>; an address that is rejected is
  returned as an \<open>*OpError\<close> of the operation "listen", which wraps the \<open>*AddrError\<close>
  and whose text is "listen", the network and the text of the wrapped error. Otherwise
  the operating system is asked for a listener on the host and the port.
\<close>

type_synonym os_bind = "string \<Rightarrow> string \<Rightarrow> string \<Rightarrow> error + listener"

definition net_Listen :: "os_bind \<Rightarrow> string \<Rightarrow> string \<Rightarrow> error + listener" where
  "net_Listen osBind network address =
    (case net_SplitHostPort address of
       Inl err \<Rightarrow> Inl (fmt_Errorf_w (''listen '' @ network @ '': '') err)
     | Inr (host, port) \<Rightarrow> osBind network host port)"

subsection \<open>The server: setGRPCTracing, newGRPCServerWithListener\<close>

datatype serverOption =
    grpc_ServerOption nat
  | grpc_StatsHandler
  | WithUnaryServerChain "unaryServerInterceptor list"

text \<open>
  \<open>stackdriver.NewExporter\<close> is given by the error it returns, if any. Registering the
  exporter and the sampling policy changes the state of the tracing library only.
\<close>

definition setGRPCTracing ::
  "error option \<Rightarrow> bool \<Rightarrow> serverOption list \<Rightarrow> error + serverOption list" where
  "setGRPCTracing newExporterErr tracing serverOptions =
    (if \<not> tracing then Inr serverOptions
     else
       (case newExporterErr of
          Some err \<Rightarrow> Inl (fmt_Errorf_w ''new exporter: '' err)
        | None \<Rightarrow> Inr (serverOptions @ [grpc_StatsHandler])))"

text \<open>
  The server that \<open>grpc.NewServer(grpcServerOptions...)\<close> makes, with what is registered
  on it afterwards: reflection, and the services of the callback \<open>registerServer\<close> (a
  callback is given by a number).
\<close>

record grpcServer =
  serverOptions :: "serverOption list"
  reflectionRegistered :: bool
  registeredBy :: "nat option"

record serverWithListener =
  server :: grpcServer
  listener :: listener

definition newGRPCServerWithListener ::
  "net_Listen \<Rightarrow> error option \<Rightarrow> listener option \<Rightarrow> string \<Rightarrow> bool \<Rightarrow> serverOption list
     \<Rightarrow> unaryServerInterceptor list \<Rightarrow> nat option \<Rightarrow> debugLogger option
     \<Rightarrow> ErrorHandler option \<Rightarrow> PanicHandler option \<Rightarrow> error + serverWithListener" where
  "newGRPCServerWithListener listen newExporterErr listenr address tracing
       defaultGRPCServerOptions unaryServerInterceptors registerServer debugLogger
       errorHandler panicHandler =
    (case newGRPCListener listen listenr address of
       Inl err \<Rightarrow> Inl (fmt_Errorf_w ''new grpc listener: '' err)
     | Inr grpcListener \<Rightarrow>
         (case setGRPCTracing newExporterErr tracing defaultGRPCServerOptions of
            Inl err \<Rightarrow> Inl (fmt_Errorf_w ''set grpc tracing tracing: '' err)
          | Inr grpcServerOptions \<Rightarrow>
              let interceptors1 =
                    (if \<not> isErrorHandlerNil errorHandler
                     then (case errorHandler of
                             Some h \<Rightarrow> prependErrorHandler unaryServerInterceptors h
                           | None \<Rightarrow> unaryServerInterceptors)
                     else unaryServerInterceptors);
                  interceptors2 =
                    (if \<not> isPanicHandlerNil panicHandler
                     then (case panicHandler of
                             Some h \<Rightarrow> prependPanicHandler interceptors1 h
                           | None \<Rightarrow> interceptors1)
                     else interceptors1);
                  interceptors3 =
                    (if \<not> isDebugLoggerNil debugLogger
                     then (case debugLogger of
                             Some l \<Rightarrow> prependDebugInterceptor interceptors2 l
                           | None \<Rightarrow> interceptors2)
                     else interceptors2);
                  grpcServerOptions' =
                    (if length interceptors3 > 0
                     then grpcServerOptions @ [WithUnaryServerChain interceptors3]
                     else grpcServerOptions)
              in
                Inr \<lparr>server =
                       \<lparr>serverOptions = grpcServerOptions',
                        reflectionRegistered = True,
                        registeredBy = registerServer\<rparr>,
                     listener = grpcListener\<rparr>))"

subsection \<open>Predicates on events\<close>

fun isReportError :: "event \<Rightarrow> bool" where
  "isReportError (ErrorHandler_ReportError ctx err) = True"
| "isReportError ev = False"

subsection \<open>Example calls and capabilities\<close>

text \<open>The values at which the theorems below are instantiated.\<close>

definition getUserInfo :: unaryServerInfo where
  "getUserInfo = \<lparr>FullMethod = ''/users.Users/GetUser''\<rparr>"

definition checkInfo :: unaryServerInfo where
  "checkInfo = \<lparr>FullMethod = ''/grpc.health.v1.Health/Check''\<rparr>"

definition pongHandler :: unaryHandler where
  "pongHandler ctx req = (Returns (AnyString ''pong'') None, [])"

definition failingHandler :: unaryHandler where
  "failingHandler ctx req = (Returns (AnyString ''partial'') (Some (ErrorString ''boom'')), [])"

definition cancelledHandler :: unaryHandler where
  "cancelledHandler ctx req = (Returns (AnyString ''partial'') (Some context_Canceled), [])"

definition panickingHandler :: unaryHandler where
  "panickingHandler ctx req = (Panics (AnyString ''boom''), [])"

definition passInterceptor ::
  "Context \<Rightarrow> any \<Rightarrow> unaryServerInfo \<Rightarrow> unaryHandler \<Rightarrow> outcome \<times> event list" where
  "passInterceptor ctx req info handler = call handler ctx req"

text \<open>An application error that is converted to NotFound, "user not found".\<close>

definition notFoundHandler :: ErrorHandler where
  "notFoundHandler =
    \<lparr>IsApplicationError = (\<lambda>err. True),
     ReportError = (\<lambda>ctx err. None),
     ErrorToGRPCStatus = (\<lambda>err. (Some (status_New NotFound ''user not found''), None))\<rparr>"

text \<open>A conversion that succeeds with a status whose code is OK.\<close>

definition okStatusHandler :: ErrorHandler where
  "okStatusHandler =
    \<lparr>IsApplicationError = (\<lambda>err. True),
     ReportError = (\<lambda>ctx err. None),
     ErrorToGRPCStatus = (\<lambda>err. (Some (status_New OK ''done''), None))\<rparr>"

text \<open>A conversion that succeeds with the message "context cancelled.".\<close>

definition cancelledTextHandler :: ErrorHandler where
  "cancelledTextHandler =
    \<lparr>IsApplicationError = (\<lambda>err. True),
     ReportError = (\<lambda>ctx err. None),
     ErrorToGRPCStatus = (\<lambda>err. (Some (status_New Internal ''context cancelled.''), None))\<rparr>"

text \<open>A conversion that fails, and a report that fails.\<close>

definition brokenConversionHandler :: ErrorHandler where
  "brokenConversionHandler =
    \<lparr>IsApplicationError = (\<lambda>err. True),
     ReportError = (\<lambda>ctx err. Some (ErrorString ''sink down'')),
     ErrorToGRPCStatus = (\<lambda>err. (None, Some (ErrorString ''no mapping'')))\<rparr>"

text \<open>No error is an application error, and the report fails.\<close>

definition internalHandler :: ErrorHandler where
  "internalHandler =
    \<lparr>IsApplicationError = (\<lambda>err. False),
     ReportError = (\<lambda>ctx err. Some (ErrorString ''sink down'')),
     ErrorToGRPCStatus = (\<lambda>err. (None, None))\<rparr>"

definition failingPanicReporter :: PanicHandler where
  "failingPanicReporter = \<lparr>ReportPanic = (\<lambda>ctx p. Some (ErrorString ''sink down''))\<rparr>"

definition bindAny :: net_Listen where
  "bindAny network address = Inr (Listener network address)"

section \<open>Properties\<close>

subsection \<open>Auxiliary facts\<close>

lemma errors_Is_fmt_Errorf_w:
  "errors_Is (fmt_Errorf_w t e) context_Canceled = errors_Is e context_Canceled"
  by (simp add: fmt_Errorf_w_def)

lemma errors_Is_methodErr:
  "errors_Is (methodErr info err) context_Canceled = errors_Is err context_Canceled"
  by (simp add: methodErr_def errors_Is_fmt_Errorf_w)

lemma Status_Err_Internal:
  "Status_Err (Some (status_New Internal m)) = Some (StatusError \<lparr>Code = Internal, Message = m\<rparr>)"
  by (simp add: Status_Err_def status_New_def)

lemma length_quoteByte: "1 \<le> length (quoteByte c)"
  by (simp add: quoteByte_def)

lemma length_concat_quoteByte: "length s \<le> length (concat (map quoteByte s))"
proof (induction s)
  case Nil
  show ?case by simp
next
  case (Cons c s)
  have "1 \<le> length (quoteByte c)" by (rule length_quoteByte)
  with Cons show ?case by simp
qed

lemma length_strconv_Quote: "length s < length (strconv_Quote s)"
  using length_concat_quoteByte [of s] by (simp add: strconv_Quote_def)

lemma report_failure_error_neq:
  "fmt_Errorf_w (t @ strconv_Quote (Error e) @ u) r \<noteq> e"
proof
  assume eq: "fmt_Errorf_w (t @ strconv_Quote (Error e) @ u) r = e"
  have "Error (fmt_Errorf_w (t @ strconv_Quote (Error e) @ u) r)
          = (t @ strconv_Quote (Error e) @ u) @ Error r"
    by (simp add: fmt_Errorf_w_def)
  with eq have "Error e = (t @ strconv_Quote (Error e) @ u) @ Error r"
    by simp
  then have "length (Error e) = length ((t @ strconv_Quote (Error e) @ u) @ Error r)"
    by simp
  with length_strconv_Quote [of "Error e"] show False by simp
qed

lemma handleErr_cancel:
  "errors_Is targetErr context_Canceled \<Longrightarrow>
   handleErr targetErr h = (None, [ErrorHandler_LogError targetErr])"
  by (simp add: handleErr_def)

lemma handleErr_app_ok:
  "\<not> errors_Is targetErr context_Canceled \<Longrightarrow> IsApplicationError h targetErr \<Longrightarrow>
   ErrorToGRPCStatus h targetErr = (sts, None) \<Longrightarrow>
   handleErr targetErr h = (Status_Err sts, [ErrorHandler_LogError targetErr])"
  by (simp add: handleErr_def)

lemma handleErr_app_fail:
  "\<not> errors_Is targetErr context_Canceled \<Longrightarrow> IsApplicationError h targetErr \<Longrightarrow>
   ErrorToGRPCStatus h targetErr = (sts, Some convErr) \<Longrightarrow>
   handleErr targetErr h =
     (Some (StatusError \<lparr>Code = Internal, Message = ''internal error.''\<rparr>),
      [ErrorHandler_LogError targetErr,
       ErrorHandler_LogError (fmt_Errorf_w ''error to grpc status: '' convErr),
       ErrorHandler_ReportError (context_WithTimeout context_Background time_Second)
         (fmt_Errorf_w ''error to grpc status: '' convErr)] @
      (case ReportError h (context_WithTimeout context_Background time_Second)
              (fmt_Errorf_w ''error to grpc status: '' convErr) of
         None \<Rightarrow> []
       | Some reportErrErr \<Rightarrow>
           [ErrorHandler_LogError
             (fmt_Errorf_w
               (''error while reporting this error ''
                  @ strconv_Quote (Error (fmt_Errorf_w ''error to grpc status: '' convErr)) @ '': '')
               reportErrErr)]))"
  by (simp add: handleErr_def Let_def Status_Err_Internal split: option.splits)

lemma handleErr_internal:
  "\<not> errors_Is targetErr context_Canceled \<Longrightarrow> \<not> IsApplicationError h targetErr \<Longrightarrow>
   handleErr targetErr h =
     (Some (StatusError \<lparr>Code = Internal, Message = ''internal error.''\<rparr>),
      [ErrorHandler_LogError targetErr,
       ErrorHandler_ReportError (context_WithTimeout context_Background time_Second) targetErr] @
      (case ReportError h (context_WithTimeout context_Background time_Second) targetErr of
         None \<Rightarrow> []
       | Some reportErr \<Rightarrow>
           [ErrorHandler_LogError
             (fmt_Errorf_w
               (''error while reporting this error '' @ strconv_Quote (Error targetErr) @ '': '')
               reportErr)]))"
  by (simp add: handleErr_def Let_def Status_Err_Internal split: option.splits)

lemma quote_in_methodErr: "CHR 0x22 \<in> set (Error (methodErr info err))"
  by (simp add: methodErr_def fmt_Errorf_w_def strconv_Quote_def)

lemma sublist_imp_subset: "sublist xs ys \<Longrightarrow> set xs \<subseteq> set ys"
  by (auto simp: sublist_def)

lemma methodErr_not_in_message:
  "\<not> sublist (Error (methodErr info err)) ''internal error.''"
proof
  assume "sublist (Error (methodErr info err)) ''internal error.''"
  then have "set (Error (methodErr info err)) \<subseteq> set ''internal error.''"
    by (rule sublist_imp_subset)
  with quote_in_methodErr [of info err] have "CHR 0x22 \<in> set ''internal error.''"
    by blast
  then show False by simp
qed

lemma Error_methodErr:
  "Error (methodErr info err) = strconv_Quote (path_Base (FullMethod info)) @ '': '' @ Error err"
  by (simp add: methodErr_def fmt_Errorf_w_def)

lemma getUser_base: "path_Base (FullMethod getUserInfo) = ''GetUser''"
  by (simp add: path_Base_def getUserInfo_def)

lemma check_base: "path_Base (FullMethod checkInfo) = ''Check''"
  by (simp add: path_Base_def checkInfo_def)

subsection \<open>The error classifier\<close>

text \<open>
  C2, as it is stated, at an input: an application error whose conversion succeeds with a
  status of message "context cancelled." is returned with that status, so it is not true
  that \<open>handleErr\<close> returns a status with this message for no input.
\<close>

theorem handleErr_cancelled_text_counterexample:
  "fst (handleErr (ErrorString ''boom'') cancelledTextHandler)
     = Some (StatusError \<lparr>Code = Internal, Message = ''context cancelled.''\<rparr>)"
  by (simp add: handleErr_def cancelledTextHandler_def Status_Err_def status_New_def)

text \<open>
  C2, amended. For every error that satisfies the cancellation predicate, \<open>handleErr\<close>
  logs the error and returns a nil error, whatever the handler says about the error. The
  later branch that makes a status with the message "context cancelled." is never taken:
  whenever \<open>handleErr\<close> returns a status with this message, the error is not a
  cancellation, it is an application error, and the status is the one that
  \<open>ErrorToGRPCStatus\<close> returned for it.
\<close>

theorem handleErr_cancellation:
  "(errors_Is targetErr context_Canceled \<longrightarrow>
      handleErr targetErr h = (None, [ErrorHandler_LogError targetErr]))
   \<and> (fst (handleErr targetErr' h') = Some (StatusError s)
        \<and> Message s = ''context cancelled.'' \<longrightarrow>
      \<not> errors_Is targetErr' context_Canceled
      \<and> IsApplicationError h' targetErr'
      \<and> ErrorToGRPCStatus h' targetErr' = (Some s, None))"
proof (intro conjI impI)
  assume "errors_Is targetErr context_Canceled"
  then show "handleErr targetErr h = (None, [ErrorHandler_LogError targetErr])"
    by (rule handleErr_cancel)
next
  assume a: "fst (handleErr targetErr' h') = Some (StatusError s)
        \<and> Message s = ''context cancelled.''"
  show "\<not> errors_Is targetErr' context_Canceled"
  proof
    assume "errors_Is targetErr' context_Canceled"
    then have "fst (handleErr targetErr' h') = None" by (simp add: handleErr_cancel)
    with a show False by simp
  qed
  then have nc: "\<not> errors_Is targetErr' context_Canceled" .
  show app: "IsApplicationError h' targetErr'"
  proof (rule ccontr)
    assume "\<not> IsApplicationError h' targetErr'"
    with nc have "fst (handleErr targetErr' h')
        = Some (StatusError \<lparr>Code = Internal, Message = ''internal error.''\<rparr>)"
      by (simp add: handleErr_internal)
    with a show False by auto
  qed
  show "ErrorToGRPCStatus h' targetErr' = (Some s, None)"
  proof (cases "ErrorToGRPCStatus h' targetErr'")
    case (Pair sts convErr)
    show ?thesis
    proof (cases convErr)
      case None
      with Pair nc app have "fst (handleErr targetErr' h') = Status_Err sts"
        by (simp add: handleErr_app_ok)
      with a have "Status_Err sts = Some (StatusError s)" by simp
      then have "sts = Some s"
        by (auto simp: Status_Err_def split: option.splits if_splits)
      with Pair None show ?thesis by simp
    next
      case (Some e)
      with Pair nc app have "fst (handleErr targetErr' h')
          = Some (StatusError \<lparr>Code = Internal, Message = ''internal error.''\<rparr>)"
        by (simp add: handleErr_app_fail)
      with a show ?thesis by auto
    qed
  qed
qed


theorem handleErr_cancellation_witness:
  "errors_Is (methodErr getUserInfo context_Canceled) context_Canceled
   \<and> handleErr (methodErr getUserInfo context_Canceled) notFoundHandler
       = (None, [ErrorHandler_LogError (methodErr getUserInfo context_Canceled)])
   \<and> fst (handleErr (ErrorString ''boom'') cancelledTextHandler)
       = Some (StatusError \<lparr>Code = Internal, Message = ''context cancelled.''\<rparr>)
   \<and> Message \<lparr>Code = Internal, Message = ''context cancelled.''\<rparr> = ''context cancelled.''
   \<and> \<not> errors_Is (ErrorString ''boom'') context_Canceled
   \<and> IsApplicationError cancelledTextHandler (ErrorString ''boom'')
   \<and> ErrorToGRPCStatus cancelledTextHandler (ErrorString ''boom'')
       = (Some \<lparr>Code = Internal, Message = ''context cancelled.''\<rparr>, None)"
proof -
  have h1: "errors_Is (methodErr getUserInfo context_Canceled) context_Canceled"
    by (simp add: errors_Is_methodErr)
  have h2: "fst (handleErr (ErrorString ''boom'') cancelledTextHandler)
       = Some (StatusError \<lparr>Code = Internal, Message = ''context cancelled.''\<rparr>)
     \<and> Message \<lparr>Code = Internal, Message = ''context cancelled.''\<rparr> = ''context cancelled.''"
    by (simp add: handleErr_def cancelledTextHandler_def Status_Err_def status_New_def)
  from h1 h2
    handleErr_cancellation
      [where targetErr = "methodErr getUserInfo context_Canceled" and h = notFoundHandler
         and targetErr' = "ErrorString ''boom''" and h' = cancelledTextHandler
         and s = "\<lparr>Code = Internal, Message = ''context cancelled.''\<rparr>"]
  show ?thesis by blast
qed

text \<open>
  C3, as it is stated, at an input: the error is not a cancellation, it is an application
  error and its conversion succeeds with the status OK, "done"; \<open>handleErr\<close> returns
  a nil error, for which the caller is sent OK with an empty message, not the converted
  status.
\<close>

theorem handleErr_converted_OK_counterexample:
  "\<not> errors_Is (ErrorString ''boom'') context_Canceled
   \<and> IsApplicationError okStatusHandler (ErrorString ''boom'')
   \<and> ErrorToGRPCStatus okStatusHandler (ErrorString ''boom'')
       = (Some \<lparr>Code = OK, Message = ''done''\<rparr>, None)
   \<and> fst (handleErr (ErrorString ''boom'') okStatusHandler) = None
   \<and> status_Convert (fst (handleErr (ErrorString ''boom'') okStatusHandler))
       \<noteq> \<lparr>Code = OK, Message = ''done''\<rparr>"
  by (simp add: handleErr_def okStatusHandler_def Status_Err_def status_New_def
        status_Convert_def)

text \<open>
  C3, amended. For every error that is not a cancellation, that is an application error
  and whose conversion succeeds, \<open>handleErr\<close> logs the error and returns the converted
  status as an error, which is nil when the status is nil or has the code OK. When the
  status is not nil and its code is not OK, the error returned carries exactly the
  converted status, with its code and its message. \<open>ReportError\<close> is not called on this
  path.
\<close>

theorem handleErr_application_error:
  assumes "\<not> errors_Is targetErr context_Canceled"
      and "IsApplicationError h targetErr"
      and "ErrorToGRPCStatus h targetErr = (sts, None)"
  shows "handleErr targetErr h =
           ((case sts of
               None \<Rightarrow> None
             | Some st \<Rightarrow> if Code st = OK then None else Some (StatusError st)),
            [ErrorHandler_LogError targetErr])
         \<and> (sts = Some st \<and> Code st \<noteq> OK \<longrightarrow>
               fst (handleErr targetErr h) = Some (StatusError st)
               \<and> status_Convert (fst (handleErr targetErr h)) = st)
         \<and> filter isReportError (snd (handleErr targetErr h)) = []"
proof -
  from assms have eq: "handleErr targetErr h = (Status_Err sts, [ErrorHandler_LogError targetErr])"
    by (rule handleErr_app_ok)
  have c1: "handleErr targetErr h =
           ((case sts of
               None \<Rightarrow> None
             | Some st \<Rightarrow> if Code st = OK then None else Some (StatusError st)),
            [ErrorHandler_LogError targetErr])"
    by (simp add: eq Status_Err_def)
  have c2: "sts = Some st \<and> Code st \<noteq> OK \<longrightarrow>
               fst (handleErr targetErr h) = Some (StatusError st)
               \<and> status_Convert (fst (handleErr targetErr h)) = st"
    by (simp add: eq Status_Err_def status_Convert_def)
  have c3: "filter isReportError (snd (handleErr targetErr h)) = []"
    by (simp add: eq)
  from c1 c2 c3 show ?thesis by blast
qed

theorem handleErr_application_error_witness:
  "\<not> errors_Is (methodErr getUserInfo (ErrorString ''not found'')) context_Canceled
   \<and> IsApplicationError notFoundHandler (methodErr getUserInfo (ErrorString ''not found''))
   \<and> ErrorToGRPCStatus notFoundHandler (methodErr getUserInfo (ErrorString ''not found''))
       = (Some \<lparr>Code = NotFound, Message = ''user not found''\<rparr>, None)
   \<and> Code \<lparr>Code = NotFound, Message = ''user not found''\<rparr> \<noteq> OK
   \<and> handleErr (methodErr getUserInfo (ErrorString ''not found'')) notFoundHandler
       = (Some (StatusError \<lparr>Code = NotFound, Message = ''user not found''\<rparr>),
          [ErrorHandler_LogError (methodErr getUserInfo (ErrorString ''not found''))])
   \<and> status_Convert (fst (handleErr (methodErr getUserInfo (ErrorString ''not found''))
         notFoundHandler)) = \<lparr>Code = NotFound, Message = ''user not found''\<rparr>
   \<and> filter isReportError
        (snd (handleErr (methodErr getUserInfo (ErrorString ''not found'')) notFoundHandler)) = []"
proof -
  have h1: "\<not> errors_Is (methodErr getUserInfo (ErrorString ''not found'')) context_Canceled"
    by (simp add: errors_Is_methodErr)
  have h2: "IsApplicationError notFoundHandler (methodErr getUserInfo (ErrorString ''not found''))"
    by (simp add: notFoundHandler_def)
  have h3: "ErrorToGRPCStatus notFoundHandler (methodErr getUserInfo (ErrorString ''not found''))
       = (Some \<lparr>Code = NotFound, Message = ''user not found''\<rparr>, None)"
    by (simp add: notFoundHandler_def status_New_def)
  from h1 h2 h3
    handleErr_application_error
      [OF h1 h2 h3, where st = "\<lparr>Code = NotFound, Message = ''user not found''\<rparr>"]
  show ?thesis by (simp add: status_Convert_def)
qed

text \<open>
  C4. For every error that is not a cancellation, that is an application error and whose
  conversion fails, \<open>handleErr\<close> returns the status Internal, "internal error."; after
  the first log of the error it logs the failure of the conversion, reports it with
  \<open>ReportError\<close> and a context made from the background context with a timeout of one
  second (1000000000 nanoseconds), and, when the report fails, logs that failure with
  \<open>LogError\<close> and does nothing else. The message is fixed, and it does not contain the
  text of an error that the interceptor gives to \<open>handleErr\<close>.
\<close>

theorem handleErr_conversion_failure:
  assumes "\<not> errors_Is targetErr context_Canceled"
      and "IsApplicationError h targetErr"
      and "ErrorToGRPCStatus h targetErr = (sts, Some convErr)"
  shows "handleErr targetErr h =
           (Some (StatusError \<lparr>Code = Internal, Message = ''internal error.''\<rparr>),
            [ErrorHandler_LogError targetErr,
             ErrorHandler_LogError (fmt_Errorf_w ''error to grpc status: '' convErr),
             ErrorHandler_ReportError (context_WithTimeout context_Background 1000000000)
               (fmt_Errorf_w ''error to grpc status: '' convErr)] @
            (case ReportError h (context_WithTimeout context_Background 1000000000)
                    (fmt_Errorf_w ''error to grpc status: '' convErr) of
               None \<Rightarrow> []
             | Some reportErrErr \<Rightarrow>
                 [ErrorHandler_LogError
                   (fmt_Errorf_w
                     (''error while reporting this error ''
                        @ strconv_Quote (Error (fmt_Errorf_w ''error to grpc status: '' convErr))
                        @ '': '')
                     reportErrErr)]))
         \<and> (targetErr = methodErr info err \<longrightarrow>
               \<not> sublist (Error targetErr) ''internal error.'')"
proof -
  have t: "time_Second = 1000000000" by (simp add: time_Second_def)
  from assms show ?thesis
    using handleErr_app_fail [of targetErr h sts convErr] methodErr_not_in_message [of info err]
    by (simp add: t)
qed

theorem handleErr_conversion_failure_witness:
  "\<not> errors_Is (methodErr getUserInfo (ErrorString ''boom'')) context_Canceled
   \<and> IsApplicationError brokenConversionHandler (methodErr getUserInfo (ErrorString ''boom''))
   \<and> ErrorToGRPCStatus brokenConversionHandler (methodErr getUserInfo (ErrorString ''boom''))
       = (None, Some (ErrorString ''no mapping''))
   \<and> handleErr (methodErr getUserInfo (ErrorString ''boom'')) brokenConversionHandler =
       (Some (StatusError \<lparr>Code = Internal, Message = ''internal error.''\<rparr>),
        [ErrorHandler_LogError (methodErr getUserInfo (ErrorString ''boom'')),
         ErrorHandler_LogError (fmt_Errorf_w ''error to grpc status: '' (ErrorString ''no mapping'')),
         ErrorHandler_ReportError (context_WithTimeout context_Background 1000000000)
           (fmt_Errorf_w ''error to grpc status: '' (ErrorString ''no mapping'')),
         ErrorHandler_LogError
           (fmt_Errorf_w
             (''error while reporting this error ''
                @ strconv_Quote
                    (Error (fmt_Errorf_w ''error to grpc status: '' (ErrorString ''no mapping'')))
                @ '': '')
             (ErrorString ''sink down''))])
   \<and> \<not> sublist (Error (methodErr getUserInfo (ErrorString ''boom''))) ''internal error.''"
proof -
  have h1: "\<not> errors_Is (methodErr getUserInfo (ErrorString ''boom'')) context_Canceled"
    by (simp add: errors_Is_methodErr)
  have h2: "IsApplicationError brokenConversionHandler (methodErr getUserInfo (ErrorString ''boom''))"
    by (simp add: brokenConversionHandler_def)
  have h3: "ErrorToGRPCStatus brokenConversionHandler (methodErr getUserInfo (ErrorString ''boom''))
       = (None, Some (ErrorString ''no mapping''))"
    by (simp add: brokenConversionHandler_def)
  have r: "ReportError brokenConversionHandler (context_WithTimeout context_Background 1000000000)
             (fmt_Errorf_w ''error to grpc status: '' (ErrorString ''no mapping''))
           = Some (ErrorString ''sink down'')"
    by (simp add: brokenConversionHandler_def)
  from handleErr_conversion_failure
      [OF h1 h2 h3, where info = getUserInfo and err = "ErrorString ''boom''"] h1 h2 h3
  show ?thesis by (simp add: r)
qed

text \<open>
  C5. When the next handler returns an error that is not a cancellation and that is not
  an application error, the interceptor gives \<open>handleErr\<close> the error prefixed with the
  quoted short name of the method. \<open>handleErr\<close> first calls \<open>LogError\<close> with this
  error, and this is the only call of \<open>LogError\<close> with it; it then reports the error
  with \<open>ReportError\<close> and a context made from the background context with a timeout of
  one second; when the report fails it logs that failure. Whatever the report gives, the
  call returns a nil response and the status Internal, "internal error.", whose message
  does not contain the text of the error.
\<close>

theorem errorHandlerInterceptor_internal_error:
  assumes "handler ctx req = (Returns resp (Some err), evs)"
      and "\<not> errors_Is err context_Canceled"
      and "\<not> IsApplicationError h (methodErr info err)"
  shows "errorHandlerInterceptor h ctx req info handler =
           (Returns AnyNil (Some (StatusError \<lparr>Code = Internal, Message = ''internal error.''\<rparr>)),
            Handler_Called ctx req # evs @ snd (handleErr (methodErr info err) h))
         \<and> snd (handleErr (methodErr info err) h) =
             [ErrorHandler_LogError (methodErr info err),
              ErrorHandler_ReportError (context_WithTimeout context_Background 1000000000)
                (methodErr info err)] @
             (case ReportError h (context_WithTimeout context_Background 1000000000)
                     (methodErr info err) of
                None \<Rightarrow> []
              | Some reportErr \<Rightarrow>
                  [ErrorHandler_LogError
                    (fmt_Errorf_w
                      (''error while reporting this error ''
                         @ strconv_Quote (Error (methodErr info err)) @ '': '')
                      reportErr)])
         \<and> count_list (snd (handleErr (methodErr info err) h))
               (ErrorHandler_LogError (methodErr info err)) = 1
         \<and> Error (methodErr info err)
               = strconv_Quote (path_Base (FullMethod info)) @ '': '' @ Error err
         \<and> \<not> sublist (Error (methodErr info err)) ''internal error.''"
proof -
  have t: "time_Second = 1000000000" by (simp add: time_Second_def)
  from assms(2) have nc: "\<not> errors_Is (methodErr info err) context_Canceled"
    by (simp add: errors_Is_methodErr)
  note he = handleErr_internal [OF nc assms(3)]
  have c1: "errorHandlerInterceptor h ctx req info handler =
           (Returns AnyNil (Some (StatusError \<lparr>Code = Internal, Message = ''internal error.''\<rparr>)),
            Handler_Called ctx req # evs @ snd (handleErr (methodErr info err) h))"
    using assms(1) by (simp add: errorHandlerInterceptor_def call_def he)
  have c2: "snd (handleErr (methodErr info err) h) =
             [ErrorHandler_LogError (methodErr info err),
              ErrorHandler_ReportError (context_WithTimeout context_Background 1000000000)
                (methodErr info err)] @
             (case ReportError h (context_WithTimeout context_Background 1000000000)
                     (methodErr info err) of
                None \<Rightarrow> []
              | Some reportErr \<Rightarrow>
                  [ErrorHandler_LogError
                    (fmt_Errorf_w
                      (''error while reporting this error ''
                         @ strconv_Quote (Error (methodErr info err)) @ '': '')
                      reportErr)])"
    by (simp add: he t)
  have c3: "count_list (snd (handleErr (methodErr info err) h))
               (ErrorHandler_LogError (methodErr info err)) = 1"
    using report_failure_error_neq
            [of "''error while reporting this error ''" "methodErr info err" "'': ''"]
    by (simp add: c2 split: option.splits)
  from c1 c2 c3 Error_methodErr [of info err] methodErr_not_in_message [of info err]
  show ?thesis by blast
qed

theorem errorHandlerInterceptor_internal_error_witness:
  "failingHandler (IncomingContext (Some ''req-1'')) (AnyString ''ping'')
      = (Returns (AnyString ''partial'') (Some (ErrorString ''boom'')), [])
   \<and> \<not> errors_Is (ErrorString ''boom'') context_Canceled
   \<and> \<not> IsApplicationError internalHandler (methodErr getUserInfo (ErrorString ''boom''))
   \<and> errorHandlerInterceptor internalHandler (IncomingContext (Some ''req-1''))
        (AnyString ''ping'') getUserInfo failingHandler =
       (Returns AnyNil (Some (StatusError \<lparr>Code = Internal, Message = ''internal error.''\<rparr>)),
        [Handler_Called (IncomingContext (Some ''req-1'')) (AnyString ''ping''),
         ErrorHandler_LogError (methodErr getUserInfo (ErrorString ''boom'')),
         ErrorHandler_ReportError (context_WithTimeout context_Background 1000000000)
           (methodErr getUserInfo (ErrorString ''boom'')),
         ErrorHandler_LogError
           (fmt_Errorf_w
             (''error while reporting this error ''
                @ strconv_Quote (Error (methodErr getUserInfo (ErrorString ''boom''))) @ '': '')
             (ErrorString ''sink down''))])
   \<and> count_list (snd (handleErr (methodErr getUserInfo (ErrorString ''boom'')) internalHandler))
        (ErrorHandler_LogError (methodErr getUserInfo (ErrorString ''boom''))) = 1
   \<and> Error (methodErr getUserInfo (ErrorString ''boom''))
        = strconv_Quote ''GetUser'' @ '': boom''
   \<and> \<not> sublist (Error (methodErr getUserInfo (ErrorString ''boom''))) ''internal error.''"
proof -
  have h1: "failingHandler (IncomingContext (Some ''req-1'')) (AnyString ''ping'')
      = (Returns (AnyString ''partial'') (Some (ErrorString ''boom'')), [])"
    by (simp add: failingHandler_def)
  have h2: "\<not> errors_Is (ErrorString ''boom'') context_Canceled"
    by simp
  have h3: "\<not> IsApplicationError internalHandler (methodErr getUserInfo (ErrorString ''boom''))"
    by (simp add: internalHandler_def)
  have r: "ReportError internalHandler (context_WithTimeout context_Background 1000000000)
             (methodErr getUserInfo (ErrorString ''boom'')) = Some (ErrorString ''sink down'')"
    by (simp add: internalHandler_def)
  note th = errorHandlerInterceptor_internal_error
         [where handler = failingHandler and ctx = "IncomingContext (Some ''req-1'')"
            and req = "AnyString ''ping''" and h = internalHandler and info = getUserInfo,
          OF h1 h2 h3]
  from th have e1: "errorHandlerInterceptor internalHandler (IncomingContext (Some ''req-1''))
        (AnyString ''ping'') getUserInfo failingHandler =
       (Returns AnyNil (Some (StatusError \<lparr>Code = Internal, Message = ''internal error.''\<rparr>)),
        Handler_Called (IncomingContext (Some ''req-1'')) (AnyString ''ping'') # [] @
          snd (handleErr (methodErr getUserInfo (ErrorString ''boom'')) internalHandler))"
    by (rule conjunct1)
  from th have e2: "snd (handleErr (methodErr getUserInfo (ErrorString ''boom'')) internalHandler) =
       [ErrorHandler_LogError (methodErr getUserInfo (ErrorString ''boom'')),
        ErrorHandler_ReportError (context_WithTimeout context_Background 1000000000)
          (methodErr getUserInfo (ErrorString ''boom''))] @
       (case ReportError internalHandler (context_WithTimeout context_Background 1000000000)
               (methodErr getUserInfo (ErrorString ''boom'')) of
          None \<Rightarrow> []
        | Some reportErr \<Rightarrow>
            [ErrorHandler_LogError
              (fmt_Errorf_w
                (''error while reporting this error ''
                   @ strconv_Quote (Error (methodErr getUserInfo (ErrorString ''boom''))) @ '': '')
                reportErr)])"
    by blast
  from th have e3: "count_list
        (snd (handleErr (methodErr getUserInfo (ErrorString ''boom'')) internalHandler))
        (ErrorHandler_LogError (methodErr getUserInfo (ErrorString ''boom''))) = 1"
    by blast
  from th have e4: "Error (methodErr getUserInfo (ErrorString ''boom''))
        = strconv_Quote (path_Base (FullMethod getUserInfo)) @ '': '' @ Error (ErrorString ''boom'')"
    by blast
  from th have e5: "\<not> sublist (Error (methodErr getUserInfo (ErrorString ''boom'')))
        ''internal error.''"
    by blast
  have w4: "errorHandlerInterceptor internalHandler (IncomingContext (Some ''req-1''))
        (AnyString ''ping'') getUserInfo failingHandler =
       (Returns AnyNil (Some (StatusError \<lparr>Code = Internal, Message = ''internal error.''\<rparr>)),
        [Handler_Called (IncomingContext (Some ''req-1'')) (AnyString ''ping''),
         ErrorHandler_LogError (methodErr getUserInfo (ErrorString ''boom'')),
         ErrorHandler_ReportError (context_WithTimeout context_Background 1000000000)
           (methodErr getUserInfo (ErrorString ''boom'')),
         ErrorHandler_LogError
           (fmt_Errorf_w
             (''error while reporting this error ''
                @ strconv_Quote (Error (methodErr getUserInfo (ErrorString ''boom''))) @ '': '')
             (ErrorString ''sink down''))])"
    by (simp only: e1 e2 r option.case append.simps)
  have w6: "Error (methodErr getUserInfo (ErrorString ''boom''))
        = strconv_Quote ''GetUser'' @ '': boom''"
    by (simp add: e4 getUser_base)
  from h1 h2 h3 w4 e3 w6 e5 show ?thesis by blast
qed

subsection \<open>The response on the error path\<close>

text \<open>
  C10. When the next handler returns an error that is not nil, the interceptor of the
  error handler returns a nil response, with the error that \<open>handleErr\<close> returns; when
  the error is a cancellation, it returns a nil response and a nil error.
\<close>

theorem errorHandlerInterceptor_drops_response:
  assumes "handler ctx req = (Returns resp (Some err), evs)"
  shows "fst (errorHandlerInterceptor h ctx req info handler)
           = Returns AnyNil (fst (handleErr (methodErr info err) h))
         \<and> (errors_Is err context_Canceled \<longrightarrow>
               fst (errorHandlerInterceptor h ctx req info handler) = Returns AnyNil None)"
proof -
  have c1: "fst (errorHandlerInterceptor h ctx req info handler)
           = Returns AnyNil (fst (handleErr (methodErr info err) h))"
    using assms by (simp add: errorHandlerInterceptor_def call_def split: prod.splits)
  have c2: "errors_Is err context_Canceled \<longrightarrow>
               fst (errorHandlerInterceptor h ctx req info handler) = Returns AnyNil None"
    by (simp add: c1 handleErr_cancel errors_Is_methodErr)
  from c1 c2 show ?thesis by blast
qed

theorem errorHandlerInterceptor_drops_response_witness:
  "cancelledHandler (IncomingContext None) (AnyString ''ping'')
      = (Returns (AnyString ''partial'') (Some context_Canceled), [])
   \<and> errors_Is context_Canceled context_Canceled
   \<and> fst (errorHandlerInterceptor notFoundHandler (IncomingContext None) (AnyString ''ping'')
            getUserInfo cancelledHandler) = Returns AnyNil None"
proof -
  have h1: "cancelledHandler (IncomingContext None) (AnyString ''ping'')
      = (Returns (AnyString ''partial'') (Some context_Canceled), [])"
    by (simp add: cancelledHandler_def)
  have h2: "errors_Is context_Canceled context_Canceled" by simp
  from errorHandlerInterceptor_drops_response
         [where handler = cancelledHandler and ctx = "IncomingContext None"
            and req = "AnyString ''ping''" and h = notFoundHandler and info = getUserInfo,
          OF h1] h1 h2
  show ?thesis by blast
qed

subsection \<open>Panic recovery\<close>

lemma status_Error_Internal:
  "status_Error Internal m = Some (StatusError \<lparr>Code = Internal, Message = m\<rparr>)"
  by (simp add: status_Error_def Status_Err_Internal)

lemma newRecoveryFunc_eq:
  "newRecoveryFunc panicHandler p =
     (Some (StatusError \<lparr>Code = Internal, Message = ''internal error.''\<rparr>),
      [PanicHandler_LogPanic p,
       PanicHandler_ReportPanic (context_WithTimeout context_Background 1000000000) p] @
      (case ReportPanic panicHandler (context_WithTimeout context_Background 1000000000) p of
         None \<Rightarrow> []
       | Some reportPanicErr \<Rightarrow>
           [PanicHandler_LogError
             (fmt_Errorf_w (''error while reporting panic '' @ fmt_q p @ '': '')
                reportPanicErr)]))"
  by (simp add: newRecoveryFunc_def Let_def status_Error_Internal time_Second_def
        split: option.splits)

text \<open>
  C6. For every value of a panic, the recovery function first calls \<open>LogPanic\<close> with
  the value, once, then \<open>ReportPanic\<close>, once, with the value and a context made from
  the background context with a timeout of one second (1000000000 nanoseconds); the
  function is not given the context of the call. When \<open>ReportPanic\<close> fails, the failure
  is logged with \<open>LogError\<close> and nothing else happens. In every case the function
  returns the status Internal, "internal error.", the same for every handler and every
  value of a panic, and the call whose handler panicked returns a nil response with
  this status.
\<close>

theorem newRecoveryFunc_masks_panic:
  "newRecoveryFunc panicHandler p =
     (Some (StatusError \<lparr>Code = Internal, Message = ''internal error.''\<rparr>),
      [PanicHandler_LogPanic p,
       PanicHandler_ReportPanic (context_WithTimeout context_Background 1000000000) p] @
      (case ReportPanic panicHandler (context_WithTimeout context_Background 1000000000) p of
         None \<Rightarrow> []
       | Some reportPanicErr \<Rightarrow>
           [PanicHandler_LogError
             (fmt_Errorf_w (''error while reporting panic '' @ fmt_q p @ '': '')
                reportPanicErr)]))
   \<and> fst (newRecoveryFunc panicHandler p) = fst (newRecoveryFunc panicHandler' p')
   \<and> (handler ctx req = (Panics p, evs) \<longrightarrow>
         grpc_recovery_UnaryServerInterceptor (newRecoveryFunc panicHandler) ctx req info handler =
           (Returns AnyNil (Some (StatusError \<lparr>Code = Internal, Message = ''internal error.''\<rparr>)),
            Handler_Called ctx req # evs @ snd (newRecoveryFunc panicHandler p)))"
proof (intro conjI impI)
  show "newRecoveryFunc panicHandler p =
     (Some (StatusError \<lparr>Code = Internal, Message = ''internal error.''\<rparr>),
      [PanicHandler_LogPanic p,
       PanicHandler_ReportPanic (context_WithTimeout context_Background 1000000000) p] @
      (case ReportPanic panicHandler (context_WithTimeout context_Background 1000000000) p of
         None \<Rightarrow> []
       | Some reportPanicErr \<Rightarrow>
           [PanicHandler_LogError
             (fmt_Errorf_w (''error while reporting panic '' @ fmt_q p @ '': '')
                reportPanicErr)]))"
    by (rule newRecoveryFunc_eq)
next
  show "fst (newRecoveryFunc panicHandler p) = fst (newRecoveryFunc panicHandler' p')"
    by (simp add: newRecoveryFunc_eq)
next
  assume "handler ctx req = (Panics p, evs)"
  then show "grpc_recovery_UnaryServerInterceptor (newRecoveryFunc panicHandler) ctx req info handler =
           (Returns AnyNil (Some (StatusError \<lparr>Code = Internal, Message = ''internal error.''\<rparr>)),
            Handler_Called ctx req # evs @ snd (newRecoveryFunc panicHandler p))"
    by (simp add: grpc_recovery_UnaryServerInterceptor_def call_def newRecoveryFunc_eq)
qed

theorem newRecoveryFunc_masks_panic_witness:
  "panickingHandler (IncomingContext None) (AnyString ''ping'') = (Panics (AnyString ''boom''), [])
   \<and> grpc_recovery_UnaryServerInterceptor (newRecoveryFunc failingPanicReporter)
        (IncomingContext None) (AnyString ''ping'') getUserInfo panickingHandler =
       (Returns AnyNil (Some (StatusError \<lparr>Code = Internal, Message = ''internal error.''\<rparr>)),
        [Handler_Called (IncomingContext None) (AnyString ''ping''),
         PanicHandler_LogPanic (AnyString ''boom''),
         PanicHandler_ReportPanic (context_WithTimeout context_Background 1000000000)
           (AnyString ''boom''),
         PanicHandler_LogError
           (fmt_Errorf_w (''error while reporting panic '' @ strconv_Quote ''boom'' @ '': '')
              (ErrorString ''sink down''))])"
proof -
  have h1: "panickingHandler (IncomingContext None) (AnyString ''ping'')
              = (Panics (AnyString ''boom''), [])"
    by (simp add: panickingHandler_def)
  have r: "ReportPanic failingPanicReporter (context_WithTimeout context_Background 1000000000)
             (AnyString ''boom'') = Some (ErrorString ''sink down'')"
    by (simp add: failingPanicReporter_def)
  note th = newRecoveryFunc_masks_panic
      [where handler = panickingHandler and ctx = "IncomingContext None"
         and req = "AnyString ''ping''" and p = "AnyString ''boom''" and evs = "[]"
         and panicHandler = failingPanicReporter and info = getUserInfo
         and panicHandler' = failingPanicReporter and p' = AnyNil]
  from th have e0: "newRecoveryFunc failingPanicReporter (AnyString ''boom'') =
     (Some (StatusError \<lparr>Code = Internal, Message = ''internal error.''\<rparr>),
      [PanicHandler_LogPanic (AnyString ''boom''),
       PanicHandler_ReportPanic (context_WithTimeout context_Background 1000000000)
         (AnyString ''boom'')] @
      (case ReportPanic failingPanicReporter (context_WithTimeout context_Background 1000000000)
              (AnyString ''boom'') of
         None \<Rightarrow> []
       | Some reportPanicErr \<Rightarrow>
           [PanicHandler_LogError
             (fmt_Errorf_w (''error while reporting panic '' @ fmt_q (AnyString ''boom'') @ '': '')
                reportPanicErr)]))"
    by (rule conjunct1)
  from th h1 have e1: "grpc_recovery_UnaryServerInterceptor (newRecoveryFunc failingPanicReporter)
        (IncomingContext None) (AnyString ''ping'') getUserInfo panickingHandler =
       (Returns AnyNil (Some (StatusError \<lparr>Code = Internal, Message = ''internal error.''\<rparr>)),
        Handler_Called (IncomingContext None) (AnyString ''ping'') # [] @
          snd (newRecoveryFunc failingPanicReporter (AnyString ''boom'')))"
    by blast
  have w: "grpc_recovery_UnaryServerInterceptor (newRecoveryFunc failingPanicReporter)
        (IncomingContext None) (AnyString ''ping'') getUserInfo panickingHandler =
       (Returns AnyNil (Some (StatusError \<lparr>Code = Internal, Message = ''internal error.''\<rparr>)),
        [Handler_Called (IncomingContext None) (AnyString ''ping''),
         PanicHandler_LogPanic (AnyString ''boom''),
         PanicHandler_ReportPanic (context_WithTimeout context_Background 1000000000)
           (AnyString ''boom''),
         PanicHandler_LogError
           (fmt_Errorf_w (''error while reporting panic '' @ strconv_Quote ''boom'' @ '': '')
              (ErrorString ''sink down''))])"
    by (simp only: e1 e0 r option.case append.simps snd_conv fmt_q.simps)
  from h1 w show ?thesis by blast
qed

subsection \<open>The debug interceptor\<close>

lemma call_eq:
  "call handler ctx req = (fst (handler ctx req), Handler_Called ctx req # snd (handler ctx req))"
  by (simp add: call_def split: prod.splits)

lemma time_Since_nonneg: "0 \<le> time_Since elapsed"
  by (simp add: time_Since_def)

text \<open>
  C7, as it is stated, at an input: the method is GetUser and the next handler panics.
  The interceptor has logged "request started"; the panic passes through it and no
  completion entry is logged.
\<close>

theorem debugInterceptor_panic_counterexample:
  "path_Base (FullMethod getUserInfo) \<noteq> ''Check''
   \<and> path_Base (FullMethod getUserInfo) \<noteq> ''Watch''
   \<and> debugInterceptor (ZapLogger ''debug'') 1500 (IncomingContext (Some ''req-1''))
        (AnyString ''ping'') getUserInfo panickingHandler =
       (Panics (AnyString ''boom''),
        [Logger_Debug (ZapLogger ''debug'') ''request started''
           [zap_String ''trace_id'' ''req-1'', zap_String ''method'' ''GetUser''],
         Handler_Called (IncomingContext (Some ''req-1'')) (AnyString ''ping'')])"
  by (simp add: debugInterceptor_def getUser_base call_def panickingHandler_def)

text \<open>
  C7, amended. For every call whose short method name is exactly Check or Watch, the
  debug interceptor logs nothing and calls the next handler with the context and the
  request it was given. For every call with another method name whose next handler
  returns, it logs exactly one "request started" entry, with the request ID and the
  method, before it calls the next handler, and exactly one completion entry afterwards,
  with the request ID, the method, the code of the resulting status and a duration that
  is not negative; when the next handler returned an error, the completion entry also has
  the error and the request.
\<close>

theorem debugInterceptor_logging:
  "((path_Base (FullMethod info) = ''Check'' \<or> path_Base (FullMethod info) = ''Watch'') \<longrightarrow>
      debugInterceptor logger elapsed ctx req info handler
        = (fst (handler ctx req), Handler_Called ctx req # snd (handler ctx req)))
   \<and> (path_Base (FullMethod info') \<noteq> ''Check'' \<and> path_Base (FullMethod info') \<noteq> ''Watch''
        \<and> handler' ctx' req' = (Returns resp err, evs) \<longrightarrow>
      debugInterceptor logger' elapsed' ctx' req' info' handler' =
        (Returns resp err,
         [Logger_Debug logger' ''request started''
            [zap_String ''trace_id''
               (case GetRequestIDFromCtx ctx' of
                  None \<Rightarrow> ''00000000-0000-0000-0000-000000000000'' | Some rid \<Rightarrow> rid),
             zap_String ''method'' (path_Base (FullMethod info'))],
          Handler_Called ctx' req'] @ evs @
         [case err of
            None \<Rightarrow>
              Logger_Debug logger' ''request completed successfully''
                [zap_String ''trace_id''
                   (case GetRequestIDFromCtx ctx' of
                      None \<Rightarrow> ''00000000-0000-0000-0000-000000000000'' | Some rid \<Rightarrow> rid),
                 zap_String ''method'' (path_Base (FullMethod info')),
                 zap_String ''code'' (Code_String (status_Code err)),
                 zap_Duration ''duration'' (time_Since elapsed')]
          | Some e \<Rightarrow>
              Logger_Debug logger' ''request completed with error''
                [zap_String ''trace_id''
                   (case GetRequestIDFromCtx ctx' of
                      None \<Rightarrow> ''00000000-0000-0000-0000-000000000000'' | Some rid \<Rightarrow> rid),
                 zap_String ''method'' (path_Base (FullMethod info')),
                 zap_Any ''request'' req',
                 zap_Error e,
                 zap_String ''code'' (Code_String (status_Code err)),
                 zap_Duration ''duration'' (time_Since elapsed')]])
      \<and> 0 \<le> time_Since elapsed')"
proof (intro conjI impI)
  assume "path_Base (FullMethod info) = ''Check'' \<or> path_Base (FullMethod info) = ''Watch''"
  then show "debugInterceptor logger elapsed ctx req info handler
        = (fst (handler ctx req), Handler_Called ctx req # snd (handler ctx req))"
    by (simp add: debugInterceptor_def Let_def call_eq)
next
  assume a: "path_Base (FullMethod info') \<noteq> ''Check'' \<and> path_Base (FullMethod info') \<noteq> ''Watch''
        \<and> handler' ctx' req' = (Returns resp err, evs)"
  then have c: "call handler' ctx' req' = (Returns resp err, Handler_Called ctx' req' # evs)"
    by (simp add: call_def)
  from a show "debugInterceptor logger' elapsed' ctx' req' info' handler' =
        (Returns resp err,
         [Logger_Debug logger' ''request started''
            [zap_String ''trace_id''
               (case GetRequestIDFromCtx ctx' of
                  None \<Rightarrow> ''00000000-0000-0000-0000-000000000000'' | Some rid \<Rightarrow> rid),
             zap_String ''method'' (path_Base (FullMethod info'))],
          Handler_Called ctx' req'] @ evs @
         [case err of
            None \<Rightarrow>
              Logger_Debug logger' ''request completed successfully''
                [zap_String ''trace_id''
                   (case GetRequestIDFromCtx ctx' of
                      None \<Rightarrow> ''00000000-0000-0000-0000-000000000000'' | Some rid \<Rightarrow> rid),
                 zap_String ''method'' (path_Base (FullMethod info')),
                 zap_String ''code'' (Code_String (status_Code err)),
                 zap_Duration ''duration'' (time_Since elapsed')]
          | Some e \<Rightarrow>
              Logger_Debug logger' ''request completed with error''
                [zap_String ''trace_id''
                   (case GetRequestIDFromCtx ctx' of
                      None \<Rightarrow> ''00000000-0000-0000-0000-000000000000'' | Some rid \<Rightarrow> rid),
                 zap_String ''method'' (path_Base (FullMethod info')),
                 zap_Any ''request'' req',
                 zap_Error e,
                 zap_String ''code'' (Code_String (status_Code err)),
                 zap_Duration ''duration'' (time_Since elapsed')]])"
    by (cases err) (simp_all add: debugInterceptor_def Let_def c)
next
  show "0 \<le> time_Since elapsed'" by (rule time_Since_nonneg)
qed

theorem debugInterceptor_logging_witness:
  "(path_Base (FullMethod checkInfo) = ''Check'' \<or> path_Base (FullMethod checkInfo) = ''Watch'')
   \<and> debugInterceptor (ZapLogger ''debug'') 1500 (IncomingContext None) (AnyString ''ping'')
        checkInfo pongHandler
       = (Returns (AnyString ''pong'') None,
          [Handler_Called (IncomingContext None) (AnyString ''ping'')])
   \<and> path_Base (FullMethod getUserInfo) \<noteq> ''Check''
   \<and> path_Base (FullMethod getUserInfo) \<noteq> ''Watch''
   \<and> failingHandler (IncomingContext None) (AnyString ''ping'')
       = (Returns (AnyString ''partial'') (Some (ErrorString ''boom'')), [])
   \<and> debugInterceptor (ZapLogger ''debug'') 1500 (IncomingContext None) (AnyString ''ping'')
        getUserInfo failingHandler
       = (Returns (AnyString ''partial'') (Some (ErrorString ''boom'')),
          [Logger_Debug (ZapLogger ''debug'') ''request started''
             [zap_String ''trace_id'' ''00000000-0000-0000-0000-000000000000'',
              zap_String ''method'' ''GetUser''],
           Handler_Called (IncomingContext None) (AnyString ''ping''),
           Logger_Debug (ZapLogger ''debug'') ''request completed with error''
             [zap_String ''trace_id'' ''00000000-0000-0000-0000-000000000000'',
              zap_String ''method'' ''GetUser'',
              zap_Any ''request'' (AnyString ''ping''),
              zap_Error (ErrorString ''boom''),
              zap_String ''code'' ''Unknown'',
              zap_Duration ''duration'' 1500]])
   \<and> (0::int) \<le> 1500"
proof -
  have h1: "path_Base (FullMethod checkInfo) = ''Check'' \<or> path_Base (FullMethod checkInfo) = ''Watch''"
    by (simp add: check_base)
  have h2: "path_Base (FullMethod getUserInfo) \<noteq> ''Check''
            \<and> path_Base (FullMethod getUserInfo) \<noteq> ''Watch''
            \<and> failingHandler (IncomingContext None) (AnyString ''ping'')
                = (Returns (AnyString ''partial'') (Some (ErrorString ''boom'')), [])"
    by (simp add: getUser_base failingHandler_def)
  have t: "time_Since 1500 = 1500" by (simp add: time_Since_def)
  have c: "status_Code (Some (ErrorString ''boom'')) = Unknown"
    by (simp add: status_Code_def status_Convert_def status_New_def)
  note th = debugInterceptor_logging
      [where info = checkInfo and logger = "ZapLogger ''debug''" and elapsed = 1500
         and ctx = "IncomingContext None" and req = "AnyString ''ping''" and handler = pongHandler
         and info' = getUserInfo and logger' = "ZapLogger ''debug''" and elapsed' = 1500
         and ctx' = "IncomingContext None" and req' = "AnyString ''ping''"
         and handler' = failingHandler and resp = "AnyString ''partial''"
         and err = "Some (ErrorString ''boom'')" and evs = "[]"]
  from th h1 have a: "debugInterceptor (ZapLogger ''debug'') 1500 (IncomingContext None)
        (AnyString ''ping'') checkInfo pongHandler
       = (fst (pongHandler (IncomingContext None) (AnyString ''ping'')),
          Handler_Called (IncomingContext None) (AnyString ''ping'')
            # snd (pongHandler (IncomingContext None) (AnyString ''ping'')))"
    by blast
  have w1: "debugInterceptor (ZapLogger ''debug'') 1500 (IncomingContext None) (AnyString ''ping'')
        checkInfo pongHandler
       = (Returns (AnyString ''pong'') None,
          [Handler_Called (IncomingContext None) (AnyString ''ping'')])"
    by (simp add: a pongHandler_def)
  from th h2 have b: "debugInterceptor (ZapLogger ''debug'') 1500 (IncomingContext None)
        (AnyString ''ping'') getUserInfo failingHandler =
        (Returns (AnyString ''partial'') (Some (ErrorString ''boom'')),
         [Logger_Debug (ZapLogger ''debug'') ''request started''
            [zap_String ''trace_id''
               (case GetRequestIDFromCtx (IncomingContext None) of
                  None \<Rightarrow> ''00000000-0000-0000-0000-000000000000'' | Some rid \<Rightarrow> rid),
             zap_String ''method'' (path_Base (FullMethod getUserInfo))],
          Handler_Called (IncomingContext None) (AnyString ''ping'')] @ [] @
         [case Some (ErrorString ''boom'') of
            None \<Rightarrow>
              Logger_Debug (ZapLogger ''debug'') ''request completed successfully''
                [zap_String ''trace_id''
                   (case GetRequestIDFromCtx (IncomingContext None) of
                      None \<Rightarrow> ''00000000-0000-0000-0000-000000000000'' | Some rid \<Rightarrow> rid),
                 zap_String ''method'' (path_Base (FullMethod getUserInfo)),
                 zap_String ''code'' (Code_String (status_Code (Some (ErrorString ''boom'')))),
                 zap_Duration ''duration'' (time_Since 1500)]
          | Some e \<Rightarrow>
              Logger_Debug (ZapLogger ''debug'') ''request completed with error''
                [zap_String ''trace_id''
                   (case GetRequestIDFromCtx (IncomingContext None) of
                      None \<Rightarrow> ''00000000-0000-0000-0000-000000000000'' | Some rid \<Rightarrow> rid),
                 zap_String ''method'' (path_Base (FullMethod getUserInfo)),
                 zap_Any ''request'' (AnyString ''ping''),
                 zap_Error e,
                 zap_String ''code'' (Code_String (status_Code (Some (ErrorString ''boom'')))),
                 zap_Duration ''duration'' (time_Since 1500)]])"
    by blast
  have w2: "debugInterceptor (ZapLogger ''debug'') 1500 (IncomingContext None) (AnyString ''ping'')
        getUserInfo failingHandler
       = (Returns (AnyString ''partial'') (Some (ErrorString ''boom'')),
          [Logger_Debug (ZapLogger ''debug'') ''request started''
             [zap_String ''trace_id'' ''00000000-0000-0000-0000-000000000000'',
              zap_String ''method'' ''GetUser''],
           Handler_Called (IncomingContext None) (AnyString ''ping''),
           Logger_Debug (ZapLogger ''debug'') ''request completed with error''
             [zap_String ''trace_id'' ''00000000-0000-0000-0000-000000000000'',
              zap_String ''method'' ''GetUser'',
              zap_Any ''request'' (AnyString ''ping''),
              zap_Error (ErrorString ''boom''),
              zap_String ''code'' ''Unknown'',
              zap_Duration ''duration'' 1500]])"
    by (simp add: b t c getUser_base)
  have w3: "(0::int) \<le> 1500" by simp
  from h1 h2 w1 w2 w3 show ?thesis by blast
qed

text \<open>
  C8. The debug interceptor only observes: the outcome it gives to its caller, the
  response and the error, is the outcome of the next handler.
\<close>

theorem debugInterceptor_observation_only:
  "fst (debugInterceptor logger elapsed ctx req info handler) = fst (handler ctx req)"
  by (simp add: debugInterceptor_def call_def Let_def
        split: prod.splits outcome.splits option.splits)

theorem debugInterceptor_observation_only_witness:
  "fst (debugInterceptor (ZapLogger ''debug'') 1500 (IncomingContext None) (AnyString ''ping'')
          getUserInfo failingHandler)
     = Returns (AnyString ''partial'') (Some (ErrorString ''boom''))"
  using debugInterceptor_observation_only
          [of "ZapLogger ''debug''" 1500 "IncomingContext None" "AnyString ''ping''"
              getUserInfo failingHandler]
  by (simp add: failingHandler_def)

subsection \<open>The chain of interceptors\<close>

text \<open>
  C1. When \<open>newGRPCServerWithListener\<close> succeeds, the list of interceptors it gives to
  the server is the debug interceptor, the panic recovery and the error classifier, in
  this order and each only when its capability is not nil, followed by the interceptors
  of the caller in their order; a capability that is nil adds no element. The option with
  the chain follows the options of \<open>setGRPCTracing\<close>, and there is none when the list
  is empty.
\<close>

theorem newGRPCServerWithListener_chain:
  assumes "newGRPCServerWithListener listen newExporterErr listenr address tracing
             defaultGRPCServerOptions unaryServerInterceptors registerServer debugLogger
             errorHandler panicHandler = Inr srv"
  shows "let chain =
               (case debugLogger of None \<Rightarrow> [] | Some l \<Rightarrow> [DebugInterceptor l]) @
               (case panicHandler of None \<Rightarrow> [] | Some h \<Rightarrow> [RecoveryInterceptor h]) @
               (case errorHandler of None \<Rightarrow> [] | Some h \<Rightarrow> [ErrorHandlerInterceptor h]) @
               unaryServerInterceptors
         in \<exists>grpcServerOptions.
              setGRPCTracing newExporterErr tracing defaultGRPCServerOptions
                = Inr grpcServerOptions
              \<and> serverOptions (server srv) =
                  grpcServerOptions @ (if chain = [] then [] else [WithUnaryServerChain chain])"
  using assms
  by (cases debugLogger; cases panicHandler; cases errorHandler)
     (auto simp add: newGRPCServerWithListener_def Let_def isErrorHandlerNil_def
        isPanicHandlerNil_def isDebugLoggerNil_def prependErrorHandler_def
        prependPanicHandler_def prependDebugInterceptor_def prependServerOption_def
        split: sum.splits)

theorem newGRPCServerWithListener_chain_witness:
  "newGRPCServerWithListener bindAny None (Some (Listener ''tcp'' ''0.0.0.0:9090''))
      ''0.0.0.0:9090'' False [grpc_ServerOption 7] [CallerInterceptor passInterceptor] (Some 7)
      (Some (ZapLogger ''debug'')) (Some notFoundHandler) (Some failingPanicReporter)
     = Inr \<lparr>server =
              \<lparr>serverOptions =
                 [grpc_ServerOption 7,
                  WithUnaryServerChain
                    [DebugInterceptor (ZapLogger ''debug''),
                     RecoveryInterceptor failingPanicReporter,
                     ErrorHandlerInterceptor notFoundHandler,
                     CallerInterceptor passInterceptor]],
               reflectionRegistered = True,
               registeredBy = Some 7\<rparr>,
            listener = Listener ''tcp'' ''0.0.0.0:9090''\<rparr>
   \<and> newGRPCServerWithListener bindAny None (Some (Listener ''tcp'' ''0.0.0.0:9090''))
        ''0.0.0.0:9090'' False [grpc_ServerOption 7] [CallerInterceptor passInterceptor] None
        None (Some notFoundHandler) None
       = Inr \<lparr>server =
                \<lparr>serverOptions =
                   [grpc_ServerOption 7,
                    WithUnaryServerChain
                      [ErrorHandlerInterceptor notFoundHandler,
                       CallerInterceptor passInterceptor]],
                 reflectionRegistered = True,
                 registeredBy = None\<rparr>,
              listener = Listener ''tcp'' ''0.0.0.0:9090''\<rparr>
   \<and> setGRPCTracing None False [grpc_ServerOption 7] = Inr [grpc_ServerOption 7]
   \<and> serverOptions (server
        \<lparr>server =
              \<lparr>serverOptions =
                 [grpc_ServerOption 7,
                  WithUnaryServerChain
                    [DebugInterceptor (ZapLogger ''debug''),
                     RecoveryInterceptor failingPanicReporter,
                     ErrorHandlerInterceptor notFoundHandler,
                     CallerInterceptor passInterceptor]],
               reflectionRegistered = True,
               registeredBy = Some 7\<rparr>,
            listener = Listener ''tcp'' ''0.0.0.0:9090''\<rparr>)
       = [grpc_ServerOption 7] @
         [WithUnaryServerChain
            ([DebugInterceptor (ZapLogger ''debug'')] @ [RecoveryInterceptor failingPanicReporter]
               @ [ErrorHandlerInterceptor notFoundHandler] @ [CallerInterceptor passInterceptor])]"
proof -
  have tr: "setGRPCTracing None False [grpc_ServerOption 7] = Inr [grpc_ServerOption 7]"
    by (simp add: setGRPCTracing_def)
  have l: "newGRPCListener bindAny (Some (Listener ''tcp'' ''0.0.0.0:9090'')) ''0.0.0.0:9090''
            = Inr (Listener ''tcp'' ''0.0.0.0:9090'')"
    by (simp add: newGRPCListener_def)
  have ev1:
    "newGRPCServerWithListener bindAny None (Some (Listener ''tcp'' ''0.0.0.0:9090''))
      ''0.0.0.0:9090'' False [grpc_ServerOption 7] [CallerInterceptor passInterceptor] (Some 7)
      (Some (ZapLogger ''debug'')) (Some notFoundHandler) (Some failingPanicReporter)
     = Inr \<lparr>server =
              \<lparr>serverOptions =
                 [grpc_ServerOption 7,
                  WithUnaryServerChain
                    [DebugInterceptor (ZapLogger ''debug''),
                     RecoveryInterceptor failingPanicReporter,
                     ErrorHandlerInterceptor notFoundHandler,
                     CallerInterceptor passInterceptor]],
               reflectionRegistered = True,
               registeredBy = Some 7\<rparr>,
            listener = Listener ''tcp'' ''0.0.0.0:9090''\<rparr>"
    by (simp add: newGRPCServerWithListener_def l tr Let_def isErrorHandlerNil_def
          isPanicHandlerNil_def isDebugLoggerNil_def prependErrorHandler_def
          prependPanicHandler_def prependDebugInterceptor_def prependServerOption_def)
  have ev2:
    "newGRPCServerWithListener bindAny None (Some (Listener ''tcp'' ''0.0.0.0:9090''))
        ''0.0.0.0:9090'' False [grpc_ServerOption 7] [CallerInterceptor passInterceptor] None
        None (Some notFoundHandler) None
       = Inr \<lparr>server =
                \<lparr>serverOptions =
                   [grpc_ServerOption 7,
                    WithUnaryServerChain
                      [ErrorHandlerInterceptor notFoundHandler,
                       CallerInterceptor passInterceptor]],
                 reflectionRegistered = True,
                 registeredBy = None\<rparr>,
              listener = Listener ''tcp'' ''0.0.0.0:9090''\<rparr>"
    by (simp add: newGRPCServerWithListener_def l tr Let_def isErrorHandlerNil_def
          isPanicHandlerNil_def isDebugLoggerNil_def prependErrorHandler_def
          prependPanicHandler_def prependDebugInterceptor_def prependServerOption_def)
  from newGRPCServerWithListener_chain [OF ev1] tr
  have o1: "serverOptions (server
        \<lparr>server =
              \<lparr>serverOptions =
                 [grpc_ServerOption 7,
                  WithUnaryServerChain
                    [DebugInterceptor (ZapLogger ''debug''),
                     RecoveryInterceptor failingPanicReporter,
                     ErrorHandlerInterceptor notFoundHandler,
                     CallerInterceptor passInterceptor]],
               reflectionRegistered = True,
               registeredBy = Some 7\<rparr>,
            listener = Listener ''tcp'' ''0.0.0.0:9090''\<rparr>)
       = [grpc_ServerOption 7] @
         [WithUnaryServerChain
            ([DebugInterceptor (ZapLogger ''debug'')] @ [RecoveryInterceptor failingPanicReporter]
               @ [ErrorHandlerInterceptor notFoundHandler] @ [CallerInterceptor passInterceptor])]"
    by (simp add: Let_def)
  from ev1 ev2 tr o1 show ?thesis by blast
qed

subsection \<open>The listener\<close>

lemma split_example: "net_SplitHostPort ''0.0.0.0:9090'' = Inr (''0.0.0.0'', ''9090'')"
  by (simp add: net_SplitHostPort_def lastIndexByte_def splitChecked_def)

lemma atoi_example: "strconv_Atoi ''9090'' = Inr 9090"
  by (simp add: strconv_Atoi_def isDigit_def digitsValue_def)

lemma fmt_d_example: "fmt_d (int64 9089) = ''9089''"
  by (simp add: int64_def fmt_d_def decimal.simps [of 9089] decimal.simps [of 908]
        decimal.simps [of 90] decimal.simps [of 9] digit_def)

lemma split_no_port:
  "net_SplitHostPort ''localhost'' = Inl (AddrError ''missing port in address'' ''localhost'')"
  by (simp add: net_SplitHostPort_def lastIndexByte_def missingPort_def)

lemma split_http: "net_SplitHostPort ''0.0.0.0:http'' = Inr (''0.0.0.0'', ''http'')"
  by (simp add: net_SplitHostPort_def lastIndexByte_def splitChecked_def)

lemma atoi_http: "strconv_Atoi ''http'' = Inl (NumError ''Atoi'' ''http'' ''invalid syntax'')"
  by (simp add: strconv_Atoi_def isDigit_def)

lemma split_ipv6: "net_SplitHostPort ''[::1]:8080'' = Inr (''::1'', ''8080'')"
  by (simp add: net_SplitHostPort_def lastIndexByte_def splitChecked_def)

lemma atoi_ipv6: "strconv_Atoi ''8080'' = Inr 8080"
  by (simp add: strconv_Atoi_def isDigit_def digitsValue_def)

lemma fmt_d_ipv6: "fmt_d (int64 8079) = ''8079''"
  by (simp add: int64_def fmt_d_def decimal.simps [of 8079] decimal.simps [of 807]
        decimal.simps [of 80] decimal.simps [of 8] digit_def)

lemma split_unbracketed:
  "net_SplitHostPort ''::1:8079'' = Inl (AddrError ''too many colons in address'' ''::1:8079'')"
  by (simp add: net_SplitHostPort_def lastIndexByte_def tooManyColons_def)

text \<open>
  What holds of the listener where the code does what C9 says: a listener that is
  supplied is returned unchanged, an address without a port and a port that is not a
  number are errors, and for the address "0.0.0.0:9090" the operating system is asked for
  a TCP listener on the host "0.0.0.0" and the port "9089".
\<close>

lemma newGRPCListener_supplied: "newGRPCListener listen (Some l) addr = Inr l"
  by (simp add: newGRPCListener_def)

lemma newGRPCListener_no_port:
  "newGRPCListener listen None ''localhost''
     = Inl (fmt_Errorf_w ''invalid address: ''
              (AddrError ''missing port in address'' ''localhost''))"
  by (simp add: newGRPCListener_def split_no_port)

lemma newGRPCListener_port_not_numeric:
  "newGRPCListener listen None ''0.0.0.0:http''
     = Inl (fmt_Errorf_w ''parse port: '' (NumError ''Atoi'' ''http'' ''invalid syntax''))"
  by (simp add: newGRPCListener_def split_http atoi_http)

lemma net_Listen_ipv4: "net_Listen osBind ''tcp'' ''0.0.0.0:9089'' = osBind ''tcp'' ''0.0.0.0'' ''9089''"
  by (simp add: net_Listen_def net_SplitHostPort_def lastIndexByte_def splitChecked_def)

lemma newGRPCListener_ipv4:
  "newGRPCListener (net_Listen osBind) None ''0.0.0.0:9090'' =
     (case osBind ''tcp'' ''0.0.0.0'' ''9089'' of
        Inl err \<Rightarrow> Inl (fmt_Errorf_w ''new net listener: '' err)
      | Inr bound \<Rightarrow> Inr bound)"
  by (simp add: newGRPCListener_def split_example atoi_example fmt_d_example net_Listen_ipv4)

text \<open>
  C9, where the code does not do what the claim says. The address "[::1]:8080" is well
  formed, its host is "::1" and its port is the number 8080, and no listener is supplied.
  The code formats the address of the new listener as the host, a colon and the port
  minus one, without the brackets that \<open>net.SplitHostPort\<close> has removed, and asks
  \<open>net.Listen\<close> for "::1:8079". \<open>net.Listen\<close> rejects this address, whatever the
  operating system would bind, and \<open>newGRPCListener\<close> returns the error: no listener
  is bound on the host "::1" at the port 8079.
\<close>

theorem newGRPCListener_ipv6_not_bound:
  "net_SplitHostPort ''[::1]:8080'' = Inr (''::1'', ''8080'')
   \<and> strconv_Atoi ''8080'' = Inr 8080
   \<and> ''::1'' @ '':'' @ fmt_d (int64 (8080 - 1)) = ''::1:8079''
   \<and> newGRPCListener (net_Listen osBind) None ''[::1]:8080''
       = Inl (fmt_Errorf_w ''new net listener: ''
                (fmt_Errorf_w ''listen tcp: ''
                   (AddrError ''too many colons in address'' ''::1:8079'')))"
proof -
  have a: "''::1'' @ '':'' @ fmt_d (int64 (8080 - 1)) = ''::1:8079''"
    by (simp add: fmt_d_ipv6)
  have l: "net_Listen osBind ''tcp'' ''::1:8079''
             = Inl (fmt_Errorf_w ''listen tcp: ''
                      (AddrError ''too many colons in address'' ''::1:8079''))"
    by (simp add: net_Listen_def split_unbracketed)
  have n: "newGRPCListener (net_Listen osBind) None ''[::1]:8080''
       = Inl (fmt_Errorf_w ''new net listener: ''
                (fmt_Errorf_w ''listen tcp: ''
                   (AddrError ''too many colons in address'' ''::1:8079'')))"
    using l by (simp add: newGRPCListener_def split_ipv6 atoi_ipv6 fmt_d_ipv6)
  from split_ipv6 atoi_ipv6 a n show ?thesis by blast
qed

end
